theory Spec2Isabelle
  imports Complex_Main "HOL-Library.Sublist" "HOL-Library.AList"
begin

section \<open>Python strings\<close>

text \<open>
  A Python \<open>str\<close> is modelled as a \<open>string\<close>, each \<open>char\<close> read as the code point
  of the same number (0 to 255).  The string methods the module calls are written out
  below for that range of code points.
\<close>

definition is_space :: "char \<Rightarrow> bool" where
  \<comment> \<open>\<open>str.isspace\<close> on one character: U+0009 to U+000D, U+001C to U+0020, U+0085, U+00A0\<close>
  "is_space c = (c \<in> set [CHR 0x09, CHR 0x0A, CHR 0x0B, CHR 0x0C, CHR 0x0D,
                            CHR 0x1C, CHR 0x1D, CHR 0x1E, CHR 0x1F, CHR 0x20,
                            CHR 0x85, CHR 0xA0])"

definition strip :: "string \<Rightarrow> string" where
  \<comment> \<open>\<open>s.strip()\<close>: leading and trailing whitespace removed\<close>
  "strip s = rev (dropWhile is_space (rev (dropWhile is_space s)))"

definition rstrip :: "char \<Rightarrow> string \<Rightarrow> string" where
  \<comment> \<open>\<open>s.rstrip(c)\<close> for a one-character argument: every trailing \<open>c\<close> removed\<close>
  "rstrip c s = rev (dropWhile (\<lambda>x. x = c) (rev s))"

function split_from :: "string \<Rightarrow> string \<Rightarrow> string \<Rightarrow> string list" where
  "split_from sep cur s =
     (if s = [] then [rev cur]
      else if sep \<noteq> [] \<and> prefix sep s then rev cur # split_from sep [] (drop (length sep) s)
      else split_from sep (hd s # cur) (tl s))"
  by pat_completeness auto
termination
  by (relation "measure (\<lambda>(sep, cur, s). length s)") auto

declare split_from.simps [simp del]

definition split :: "string \<Rightarrow> string \<Rightarrow> string list" where
  \<comment> \<open>\<open>s.split(sep)\<close> for a non-empty separator: cut at each occurrence, left to right\<close>
  "split sep s = split_from sep [] s"

definition is_linebreak :: "char \<Rightarrow> bool" where
  \<comment> \<open>the line boundaries of \<open>str.splitlines\<close> below U+0100\<close>
  "is_linebreak c = (c \<in> set [CHR 0x0A, CHR 0x0B, CHR 0x0C, CHR 0x0D,
                                CHR 0x1C, CHR 0x1D, CHR 0x1E, CHR 0x85])"

function splitlines_from :: "string \<Rightarrow> string \<Rightarrow> string list" where
  "splitlines_from cur s =
     (if s = [] then (if cur = [] then [] else [rev cur])
      else if hd s = CHR 0x0D \<and> tl s \<noteq> [] \<and> hd (tl s) = CHR 0x0A
        then rev cur # splitlines_from [] (tl (tl s))
      else if is_linebreak (hd s) then rev cur # splitlines_from [] (tl s)
      else splitlines_from (hd s # cur) (tl s))"
  by pat_completeness auto
termination
  by (relation "measure (\<lambda>(cur, s). length s)") auto

declare splitlines_from.simps [simp del]

definition splitlines :: "string \<Rightarrow> string list" where
  \<comment> \<open>\<open>s.splitlines()\<close>: the lines without their line breaks; CR LF is one break\<close>
  "splitlines s = splitlines_from [] s"

section \<open>Python values\<close>

text \<open>
  The module is dynamically typed: the text of an XML element is \<open>None\<close> or a \<open>str\<close>
  when parsed and may be a \<open>float\<close> after normalisation, and \<open>setattr\<close> puts any of
  them on any object.  One datatype holds every value the module handles.  \<open>'f\<close> is the
  type of Python floats and \<open>'d\<close> of \<open>datetime\<close> objects; both come from library
  functions the model takes as parameters.
\<close>

datatype ('f, 'd) py =
    PNone
  | PStr string
  | PFloat 'f
  | PDate 'd
  | PList "('f, 'd) py list"
  | PDict "(string \<times> ('f, 'd) py) list"
  | PObj string "(string \<times> ('f, 'd) py) list"
    \<comment> \<open>an instance: the name of its class and its attribute dictionary\<close>

fun is_str :: "('f, 'd) py \<Rightarrow> bool" where
  "is_str (PStr s) = True"
| "is_str v = False"

fun is_float :: "('f, 'd) py \<Rightarrow> bool" where
  "is_float (PFloat x) = True"
| "is_float v = False"

fun is_scalar :: "('f, 'd) py \<Rightarrow> bool" where
  "is_scalar PNone = True"
| "is_scalar (PStr s) = True"
| "is_scalar (PFloat x) = True"
| "is_scalar v = False"

text \<open>
  \<open>a == b\<close> on \<open>None\<close>, strings and floats.  Two floats are compared by the comparison
  of the float type, \<open>feq\<close>, which is a parameter like the type itself; values of
  different kinds are unequal.  Comparisons of other values are not needed below and
  are left open (\<open>None\<close>).
\<close>

fun py_eq :: "('f \<Rightarrow> 'f \<Rightarrow> bool) \<Rightarrow> ('f, 'd) py \<Rightarrow> ('f, 'd) py \<Rightarrow> bool option" where
  "py_eq feq (PFloat x) (PFloat y) = Some (feq x y)"
| "py_eq feq (PStr a) (PStr b) = Some (a = b)"
| "py_eq feq PNone PNone = Some True"
| "py_eq feq a b = (if is_scalar a \<and> is_scalar b then Some False else None)"

section \<open>The scalar and tree normalisers\<close>

text \<open>
  \<open>pyfloat\<close> stands for the builtin \<open>float\<close> on a \<open>str\<close>: \<open>Some x\<close> when the string
  parses, \<open>None\<close> when it raises \<open>ValueError\<close>, which \<open>xml_process_value\<close> catches.
\<close>

definition xml_process_value :: "(string \<Rightarrow> 'f option) \<Rightarrow> ('f, 'd) py \<Rightarrow> ('f, 'd) py" where
  "xml_process_value pyfloat v =
     (case v of
        PNone \<Rightarrow> PNone
      | PStr s \<Rightarrow>
          (let s' = strip s in
           if s' = [] then PNone
           else case pyfloat s' of Some x \<Rightarrow> PFloat x | None \<Rightarrow> PStr s')
      | _ \<Rightarrow> v)"

datatype ('f, 'd) element =
  Element (tag: string) (attrib: "(string \<times> ('f, 'd) py) list") (etext: "('f, 'd) py")
          (etail: "('f, 'd) py") (children: "('f, 'd) element list")

text \<open>
  \<open>xml_process_tree\<close> walks \<open>element.iter()\<close> (the element itself, then its descendants in
  document order) and overwrites the text and every attribute value of each element in
  place.  No step reads what another step wrote, so the tree after the loop is the tree
  with every element rewritten; the tail text is never touched.  \<open>attrib\<close> is a
  dictionary: its names are distinct, in the order of the document.
\<close>

fun xml_process_tree :: "(string \<Rightarrow> 'f option) \<Rightarrow> ('f, 'd) element \<Rightarrow> ('f, 'd) element" where
  "xml_process_tree pyfloat (Element tg atts txt tail ch) =
     Element tg (map (\<lambda>(name, v). (name, xml_process_value pyfloat v)) atts)
             (xml_process_value pyfloat txt) tail (map (xml_process_tree pyfloat) ch)"

fun element_iter :: "('f, 'd) element \<Rightarrow> ('f, 'd) element list" where
  \<comment> \<open>\<open>element.iter()\<close>: the element, then its descendants, in document order\<close>
  "element_iter (Element tg atts txt tail ch) =
     Element tg atts txt tail ch # concat (map element_iter ch)"

section \<open>Exceptions, the environment and the state\<close>

datatype ('f, 'd) exn =
    HTTPError nat
    \<comment> \<open>\<open>response.raise_for_status()\<close>, with the status code\<close>
  | RequestException string
    \<comment> \<open>raised by \<open>requests.get\<close> itself: no connection, a timeout\<close>
  | ParseError
    \<comment> \<open>\<open>ElementTree.fromstring\<close> on a body that is not XML\<close>
  | Exception "('f, 'd) py"
    \<comment> \<open>\<open>raise Exception(root.text)\<close>, with its argument\<close>
  | TypeError
  | AttributeError
  | ValueError
  | IndexError
  | KeyError

record 'f http_request =
  req_url :: string
  req_params :: "(string \<times> string) list"
  req_headers :: "(string \<times> string) list option"
  req_timeout :: "'f option"

record response =
  status_code :: nat
  resp_text :: string

text \<open>
  The library functions the module calls are parameters of the model: the builtin
  \<open>float\<close> on a \<open>str\<close> (\<open>None\<close> is \<open>ValueError\<close>), \<open>datetime.strptime\<close> on a string
  and a format (\<open>None\<close> is \<open>ValueError\<close>), \<open>ElementTree.fromstring\<close> (\<open>None\<close> is
  \<open>ParseError\<close>), and \<open>requests.get\<close>, whose answer may depend on the requests sent
  before.
\<close>

record ('f, 'd) env =
  builtin_float :: "string \<Rightarrow> 'f option"
  datetime_strptime :: "string \<Rightarrow> string \<Rightarrow> 'd option"
  ElementTree_fromstring :: "string \<Rightarrow> ('f, 'd) element option"
  requests_get :: "'f http_request list \<Rightarrow> 'f http_request \<Rightarrow> ('f, 'd) exn + response"

text \<open>
  The state: the \<open>params\<close> dictionaries by address (\<open>request\<close> writes into the one it
  is given), the next unused address, and the requests sent so far.  The dictionary
  bound to the default value of \<open>params\<close> when the module is loaded lives at address
  \<open>request_defaults\<close>.
\<close>

record 'f state =
  dicts :: "nat \<Rightarrow> (string \<times> string) list"
  fresh :: nat
  sent :: "'f http_request list"

definition request_defaults :: nat where
  "request_defaults = 0"

definition init_state :: "'f state" where
  "init_state = \<lparr>dicts = (\<lambda>a. []), fresh = 1, sent = []\<rparr>"

definition new_dict :: "(string \<times> string) list \<Rightarrow> 'f state \<Rightarrow> nat \<times> 'f state" where
  \<comment> \<open>a dictionary display \<open>{...}\<close>: a new object\<close>
  "new_dict d s = (fresh s, s\<lparr>dicts := (dicts s)(fresh s := d), fresh := Suc (fresh s)\<rparr>)"

definition setdefault :: "(string \<times> string) list \<Rightarrow> string \<Rightarrow> string \<Rightarrow> (string \<times> string) list" where
  "setdefault d k v = (case map_of d k of None \<Rightarrow> d @ [(k, v)] | Some x \<Rightarrow> d)"

section \<open>The transport envelope\<close>

definition params_object :: "nat option \<Rightarrow> nat" where
  \<comment> \<open>the dictionary \<open>params\<close> is bound to: the caller's, or the default one\<close>
  "params_object params = (case params of None \<Rightarrow> request_defaults | Some p \<Rightarrow> p)"

definition match_xmlns :: "string \<Rightarrow> string option" where
  \<comment> \<open>the pattern \<open> xmlns="[^"]+"\<close> matched at the start of \<open>s\<close>: what follows the match\<close>
  "match_xmlns s =
     (if prefix ('' xmlns='' @ [CHR 0x22]) s then
        (let r = drop 8 s;
             v = takeWhile (\<lambda>c. c \<noteq> CHR 0x22) r;
             t = dropWhile (\<lambda>c. c \<noteq> CHR 0x22) r
         in if v \<noteq> [] \<and> t \<noteq> [] then Some (tl t) else None)
      else None)"

fun sub_xmlns :: "string \<Rightarrow> string" where
  \<comment> \<open>\<open>re.sub(' xmlns="[^"]+"', '', s, count=1)\<close>: the leftmost match removed\<close>
  "sub_xmlns [] = []"
| "sub_xmlns (c # cs) =
     (case match_xmlns (c # cs) of Some rest \<Rightarrow> rest | None \<Rightarrow> c # sub_xmlns cs)"

datatype ('f, 'd) reply = Root "('f, 'd) element" | Text string

definition request ::
  "('f, 'd) env \<Rightarrow> string \<Rightarrow> nat option \<Rightarrow> (string \<times> string) list option \<Rightarrow> 'f option \<Rightarrow>
   'f state \<Rightarrow> (('f, 'd) exn + ('f, 'd) reply) \<times> 'f state" where
  "request env path params headers timeout s =
     (let a = params_object params;
          d = setdefault (dicts s a) ''output'' ''xml'';
          s1 = s\<lparr>dicts := (dicts s)(a := d)\<rparr>;
          url = ''https://pfam.xfam.org'' @ path;
          rq = \<lparr>req_url = url, req_params = d, req_headers = headers, req_timeout = timeout\<rparr>;
          s2 = s1\<lparr>sent := sent s1 @ [rq]\<rparr>
      in case requests_get env (sent s1) rq of
           Inl e \<Rightarrow> (Inl e, s2)
         | Inr response \<Rightarrow>
             if 400 \<le> status_code response \<and> status_code response < 600
             then (Inl (HTTPError (status_code response)), s2)
             else if map_of d ''output'' = Some ''xml'' then
               (case ElementTree_fromstring env (sub_xmlns (resp_text response)) of
                  None \<Rightarrow> (Inl ParseError, s2)
                | Some root' \<Rightarrow>
                    if tag root' = ''error'' then (Inl (Exception (etext root')), s2)
                    else (Inr (Root (xml_process_tree (builtin_float env) root')), s2))
             else (Inr (Text (resp_text response)), s2))"


section \<open>The entity mapper\<close>

text \<open>
  An instance under construction is its attribute dictionary.  An assignment
  \<open>self.name = v\<close> overwrites the attribute or adds it.  \<open>setattr(self, el.tag, el.text)\<close>
  does the same for most names, but three names are guarded by \<open>object\<close> and by the
  class: \<open>__class__\<close> takes a class only, \<open>__dict__\<close> takes a dictionary only, which then
  replaces all attributes, and \<open>__weakref__\<close> cannot be written.  \<open>getattr\<close> reads a data
  attribute off the dictionary of the instance; calls of methods are resolved further
  below.  \<open>element.get(key)\<close> is \<open>None\<close> for a missing attribute, \<open>element.find(t)\<close> is the
  first child with tag \<open>t\<close> or \<open>None\<close>, and reading \<open>.text\<close> of that \<open>None\<close> raises
  \<open>AttributeError\<close>.
\<close>

type_synonym ('f, 'd) attrs = "(string \<times> ('f, 'd) py) list"

definition assign :: "('f, 'd) attrs \<Rightarrow> string \<Rightarrow> ('f, 'd) py \<Rightarrow> ('f, 'd) attrs" where
  \<comment> \<open>\<open>self.name = v\<close> for the attribute names written out in the source\<close>
  "assign self name v = AList.update name v self"

definition setattr ::
  "('f, 'd) attrs \<Rightarrow> string \<Rightarrow> ('f, 'd) py \<Rightarrow> ('f, 'd) exn + ('f, 'd) attrs" where
  \<comment> \<open>\<open>setattr(self, name, v)\<close> for a name read from the document\<close>
  "setattr self name v =
     (if name = ''__class__'' then Inl TypeError
      else if name = ''__dict__'' then (case v of PDict d \<Rightarrow> Inr d | _ \<Rightarrow> Inl TypeError)
      else if name = ''__weakref__'' then Inl AttributeError
      else Inr (AList.update name v self))"

fun getattr :: "('f, 'd) py \<Rightarrow> string \<Rightarrow> ('f, 'd) exn + ('f, 'd) py" where
  "getattr (PObj c d) name = (case map_of d name of None \<Rightarrow> Inl AttributeError | Some v \<Rightarrow> Inr v)"
| "getattr v name = Inl AttributeError"

definition attr_of ::
  "('f, 'd) exn + ('f, 'd) py \<Rightarrow> string \<Rightarrow> ('f, 'd) exn + ('f, 'd) py" where
  \<comment> \<open>\<open>r.name\<close> on the outcome of a call: an exception stays the exception\<close>
  "attr_of r name = (case r of Inl e \<Rightarrow> Inl e | Inr v \<Rightarrow> getattr v name)"

definition element_get :: "('f, 'd) element \<Rightarrow> string \<Rightarrow> ('f, 'd) py" where
  "element_get el key = (case map_of (attrib el) key of None \<Rightarrow> PNone | Some v \<Rightarrow> v)"

definition element_find :: "('f, 'd) element \<Rightarrow> string \<Rightarrow> ('f, 'd) element option" where
  "element_find el t = List.find (\<lambda>c. tag c = t) (children el)"

definition find_text :: "('f, 'd) element \<Rightarrow> string \<Rightarrow> ('f, 'd) exn + ('f, 'd) py" where
  \<comment> \<open>\<open>el.find(t).text\<close>\<close>
  "find_text el t = (case element_find el t of None \<Rightarrow> Inl AttributeError | Some c \<Rightarrow> Inr (etext c))"

definition special_name :: "string \<Rightarrow> bool" where
  \<comment> \<open>the names on which \<open>setattr\<close> is not a plain update\<close>
  "special_name name = (name \<in> set [''__class__'', ''__dict__'', ''__weakref__''])"

fun ordinary :: "('f, 'd) element \<Rightarrow> bool" where
  \<comment> \<open>no element of the subtree is tagged with a special name\<close>
  "ordinary (Element tg atts txt tail ch) = (\<not> special_name tg \<and> list_all ordinary ch)"

definition PfamEntry ::
  "('f, 'd) py \<Rightarrow> ('f, 'd) py \<Rightarrow> ('f, 'd) py \<Rightarrow> ('f, 'd) py \<Rightarrow> ('f, 'd) py" where
  "PfamEntry etype eid accession description =
     PObj ''PfamEntry''
       [(''id'', eid), (''accession'', accession), (''description'', description), (''type'', etype)]"

definition PfarmGOTerm :: "('f, 'd) py \<Rightarrow> ('f, 'd) py \<Rightarrow> ('f, 'd) py \<Rightarrow> ('f, 'd) py" where
  "PfarmGOTerm gid category txt =
     PObj ''PfarmGOTerm'' [(''id'', gid), (''category'', category), (''text'', txt)]"

fun PfamCurationDetails_loop ::
  "('f, 'd) attrs \<Rightarrow> ('f, 'd) element list \<Rightarrow> ('f, 'd) exn + ('f, 'd) attrs" where
  "PfamCurationDetails_loop self [] = Inr self"
| "PfamCurationDetails_loop self (el # els) =
     (if tag el = ''num_seqs'' then
        (case find_text el ''seed'' of
           Inl e \<Rightarrow> Inl e
         | Inr seed \<Rightarrow>
             (case find_text el ''full'' of
                Inl e \<Rightarrow> Inl e
              | Inr full \<Rightarrow>
                  PfamCurationDetails_loop
                    (assign (assign self ''num_seqs_seed'' seed) ''num_seqs_full'' full) els))
      else (case setattr self (tag el) (etext el) of
              Inl e \<Rightarrow> Inl e
            | Inr self' \<Rightarrow> PfamCurationDetails_loop self' els))"

definition PfamCurationDetails :: "('f, 'd) element \<Rightarrow> ('f, 'd) exn + ('f, 'd) py" where
  "PfamCurationDetails element =
     (case PfamCurationDetails_loop
             [(''status'', PNone), (''seed_source'', PNone), (''num_archs'', PNone),
              (''num_species'', PNone), (''num_structures'', PNone),
              (''percentage_identity'', PNone), (''av_length'', PNone),
              (''av_coverage'', PNone), (''type'', PNone)]
             (children element) of
        Inl e \<Rightarrow> Inl e
      | Inr self \<Rightarrow> Inr (PObj ''PfamCurationDetails'' self))"

definition PfamCutoff :: "('f, 'd) py \<Rightarrow> ('f, 'd) py \<Rightarrow> ('f, 'd) py" where
  "PfamCutoff sequence domain = PObj ''PfamCutoff'' [(''sequence'', sequence), (''domain'', domain)]"

fun PfamHmmDetails_cutoffs ::
  "('f, 'd) attrs \<Rightarrow> ('f, 'd) element list \<Rightarrow> ('f, 'd) exn + ('f, 'd) attrs" where
  \<comment> \<open>\<open>for cutoff in el: self.cutoffs[cutoff.tag] = PfamCutoff(...)\<close>, on the dictionary\<close>
  "PfamHmmDetails_cutoffs cutoffs [] = Inr cutoffs"
| "PfamHmmDetails_cutoffs cutoffs (cutoff # rest) =
     (case find_text cutoff ''sequence'' of
        Inl e \<Rightarrow> Inl e
      | Inr sequence \<Rightarrow>
          (case find_text cutoff ''domain'' of
             Inl e \<Rightarrow> Inl e
           | Inr domain \<Rightarrow>
               PfamHmmDetails_cutoffs
                 (AList.update (tag cutoff) (PfamCutoff sequence domain) cutoffs) rest))"

fun PfamHmmDetails_loop ::
  "('f, 'd) attrs \<Rightarrow> ('f, 'd) element list \<Rightarrow> ('f, 'd) exn + ('f, 'd) attrs" where
  "PfamHmmDetails_loop self [] = Inr self"
| "PfamHmmDetails_loop self (el # els) =
     (if tag el = ''cutoffs'' then
        (case map_of self ''cutoffs'' of
           Some (PDict cutoffs) \<Rightarrow>
             (case PfamHmmDetails_cutoffs cutoffs (children el) of
                Inl e \<Rightarrow> Inl e
              | Inr cutoffs' \<Rightarrow> PfamHmmDetails_loop (assign self ''cutoffs'' (PDict cutoffs')) els)
         | other \<Rightarrow>
             (case children el of
                [] \<Rightarrow> PfamHmmDetails_loop self els
              | cutoff # rest \<Rightarrow>
                  (case find_text cutoff ''sequence'' of
                     Inl e \<Rightarrow> Inl e
                   | Inr sequence \<Rightarrow>
                       (case find_text cutoff ''domain'' of
                          Inl e \<Rightarrow> Inl e
                        | Inr domain \<Rightarrow>
                            (case other of None \<Rightarrow> Inl AttributeError
                                         | Some v \<Rightarrow> Inl TypeError)))))
      else (case setattr self (tag el) (etext el) of
              Inl e \<Rightarrow> Inl e
            | Inr self' \<Rightarrow> PfamHmmDetails_loop self' els))"

definition PfamHmmDetails :: "('f, 'd) element \<Rightarrow> ('f, 'd) exn + ('f, 'd) py" where
  "PfamHmmDetails element =
     (case PfamHmmDetails_loop
             [(''hmmer_version'', element_get element ''hmmer_version''),
              (''model_version'', element_get element ''model_version''),
              (''model_length'', element_get element ''model_length''),
              (''build_commands'', PNone), (''search_commands'', PNone),
              (''cutoffs'', PDict [])]
             (children element) of
        Inl e \<Rightarrow> Inl e
      | Inr self \<Rightarrow> Inr (PObj ''PfamHmmDetails'' self))"

definition go_terms_of :: "('f, 'd) element \<Rightarrow> ('f, 'd) py list" where
  \<comment> \<open>the two nested loops over the categories and their terms, appending to the list\<close>
  "go_terms_of el =
     concat (map (\<lambda>cat. map (\<lambda>term. PfarmGOTerm (element_get term ''go_id'')
                                       (element_get cat ''name'') (etext term))
                            (children cat))
                 (children el))"

fun PfamFamily_loop ::
  "('f, 'd) attrs \<Rightarrow> ('f, 'd) element list \<Rightarrow> ('f, 'd) exn + ('f, 'd) attrs" where
  "PfamFamily_loop self [] = Inr self"
| "PfamFamily_loop self (el # els) =
     (if tag el = ''curation_details'' then
        (case PfamCurationDetails el of
           Inl e \<Rightarrow> Inl e
         | Inr cd \<Rightarrow> PfamFamily_loop (assign self ''curation_details'' cd) els)
      else if tag el = ''hmm_details'' then
        (case PfamHmmDetails el of
           Inl e \<Rightarrow> Inl e
         | Inr hmm \<Rightarrow> PfamFamily_loop (assign self ''hmm_details'' hmm) els)
      else if tag el = ''clan_membership'' then
        PfamFamily_loop
          (assign self ''clan''
             (PfamEntry (PStr ''Clan'') (element_get el ''clan_id'') (element_get el ''clan_acc'') PNone))
          els
      else if tag el = ''go_terms'' then
        PfamFamily_loop (assign self ''go_terms'' (PList (go_terms_of el))) els
      else (case setattr self (tag el) (etext el) of
              Inl e \<Rightarrow> Inl e
            | Inr self' \<Rightarrow> PfamFamily_loop self' els))"

definition self_description :: "('f, 'd) attrs \<Rightarrow> ('f, 'd) exn + ('f, 'd) py" where
  \<comment> \<open>reading \<open>self.description\<close>\<close>
  "self_description self =
     (case map_of self ''description'' of None \<Rightarrow> Inl AttributeError | Some v \<Rightarrow> Inr v)"

definition PfamFamily ::
  "('f, 'd) py \<Rightarrow> ('f, 'd) py \<Rightarrow> ('f, 'd) element \<Rightarrow> ('f, 'd) exn + ('f, 'd) py" where
  "PfamFamily release_version release_date entry =
     (case PfamFamily_loop
             [(''pfam_release_version'', release_version), (''pfam_release_date'', release_date),
              (''description'', PNone), (''comment'', PNone)]
             (children entry) of
        Inl e \<Rightarrow> Inl e
      | Inr self \<Rightarrow>
          (case self_description self of
             Inl e \<Rightarrow> Inl e
           | Inr description \<Rightarrow>
               Inr (PObj ''PfamFamily''
                     (assign self ''entry''
                        (PfamEntry (element_get entry ''entry_type'') (element_get entry ''id'')
                           (element_get entry ''accession'') description)))))"


fun PfamLocation_loop ::
  "('f, 'd) attrs \<Rightarrow> ('f, 'd) element list \<Rightarrow> ('f, 'd) exn + ('f, 'd) attrs" where
  "PfamLocation_loop self [] = Inr self"
| "PfamLocation_loop self (el # els) =
     (case setattr self (tag el) (etext el) of
        Inl e \<Rightarrow> Inl e
      | Inr self' \<Rightarrow> PfamLocation_loop self' els)"

definition PfamLocation :: "('f, 'd) element \<Rightarrow> ('f, 'd) exn + ('f, 'd) py" where
  "PfamLocation element =
     (case PfamLocation_loop
             [(''start'', element_get element ''start''), (''end'', element_get element ''end''),
              (''ali_start'', element_get element ''ali_start''),
              (''ali_end'', element_get element ''ali_end''),
              (''hmm_start'', element_get element ''hmm_start''),
              (''hmm_end'', element_get element ''hmm_end''),
              (''bitscore'', element_get element ''bitscore''),
              (''evalue'', element_get element ''evalue''),
              (''evidence'', element_get element ''evidence''),
              (''significant'', element_get element ''significant''),
              (''hmm'', PNone), (''match_string'', PNone), (''pp'', PNone), (''seq'', PNone),
              (''raw'', PNone)]
             (children element) of
        Inl e \<Rightarrow> Inl e
      | Inr self \<Rightarrow> Inr (PObj ''PfamLocation'' self))"

fun PfamMatch_locations ::
  "('f, 'd) py list \<Rightarrow> ('f, 'd) element list \<Rightarrow> ('f, 'd) exn + ('f, 'd) py list" where
  \<comment> \<open>\<open>for loc in element: self.locations.append(PfamLocation(loc))\<close>, on the list\<close>
  "PfamMatch_locations locations [] = Inr locations"
| "PfamMatch_locations locations (loc # locs) =
     (case PfamLocation loc of
        Inl e \<Rightarrow> Inl e
      | Inr location \<Rightarrow> PfamMatch_locations (locations @ [location]) locs)"

definition PfamMatch :: "('f, 'd) element \<Rightarrow> ('f, 'd) exn + ('f, 'd) py" where
  "PfamMatch element =
     (case PfamMatch_locations [] (children element) of
        Inl e \<Rightarrow> Inl e
      | Inr locations \<Rightarrow>
          Inr (PObj ''PfamMatch''
                [(''entry'', PfamEntry (element_get element ''type'') (element_get element ''id'')
                               (element_get element ''accession'') PNone),
                 (''locations'', PList locations)]))"

fun PfamProtein_matches ::
  "('f, 'd) py list \<Rightarrow> ('f, 'd) element list \<Rightarrow> ('f, 'd) exn + ('f, 'd) py list" where
  \<comment> \<open>\<open>for match in el: self.matches.append(PfamMatch(match))\<close>, on the list\<close>
  "PfamProtein_matches matches [] = Inr matches"
| "PfamProtein_matches matches (el # els) =
     (case PfamMatch el of
        Inl e \<Rightarrow> Inl e
      | Inr m \<Rightarrow> PfamProtein_matches (matches @ [m]) els)"

fun PfamProtein_loop ::
  "('f, 'd) attrs \<Rightarrow> ('f, 'd) element list \<Rightarrow> ('f, 'd) exn + ('f, 'd) attrs" where
  "PfamProtein_loop self [] = Inr self"
| "PfamProtein_loop self (el # els) =
     (if tag el = ''taxonomy'' then
        (case etext el of
           PStr t \<Rightarrow>
             PfamProtein_loop
               (assign
                  (assign (assign self ''taxonomy_id'' (element_get el ''tax_id''))
                     ''species_name'' (element_get el ''species_name''))
                  ''taxonomy'' (PList (map PStr (split ''; '' (rstrip (CHR ''.'') t)))))
               els
         | _ \<Rightarrow> Inl AttributeError)
      else if tag el = ''sequence'' then
        PfamProtein_loop
          (assign (assign self ''sequence_version'' (element_get el ''version''))
             ''sequence'' (etext el))
          els
      else if tag el = ''matches'' then
        (case map_of self ''matches'' of
           Some (PList matches) \<Rightarrow>
             (case PfamProtein_matches matches (children el) of
                Inl e \<Rightarrow> Inl e
              | Inr matches' \<Rightarrow> PfamProtein_loop (assign self ''matches'' (PList matches')) els)
         | _ \<Rightarrow> if children el = [] then PfamProtein_loop self els else Inl AttributeError)
      else (case setattr self (tag el) (etext el) of
              Inl e \<Rightarrow> Inl e
            | Inr self' \<Rightarrow> PfamProtein_loop self' els))"

definition PfamProtein ::
  "('f, 'd) py \<Rightarrow> ('f, 'd) py \<Rightarrow> ('f, 'd) element \<Rightarrow> ('f, 'd) exn + ('f, 'd) py" where
  "PfamProtein release_version release_date entry =
     (case PfamProtein_loop
             [(''pfam_release_version'', release_version), (''pfam_release_date'', release_date),
              (''db_name'', element_get entry ''db''),
              (''db_release_version'', element_get entry ''db_release''),
              (''description'', PNone), (''comment'', PNone), (''taxonomy_id'', PNone),
              (''species_name'', PNone), (''taxonomy'', PNone), (''sequence'', PNone),
              (''matches'', PList [])]
             (children entry) of
        Inl e \<Rightarrow> Inl e
      | Inr self \<Rightarrow>
          (case self_description self of
             Inl e \<Rightarrow> Inl e
           | Inr description \<Rightarrow>
               Inr (PObj ''PfamProtein''
                     (assign self ''entry''
                        (PfamEntry (element_get entry ''entry_type'') (element_get entry ''id'')
                           (element_get entry ''accession'') description)))))"

definition PfamClanMember :: "('f, 'd) element \<Rightarrow> ('f, 'd) py" where
  "PfamClanMember element =
     PObj ''PfamClanMember''
       [(''entry'', PfamEntry (PStr ''Pfam-A'') (element_get element ''id'')
                      (element_get element ''accession'') PNone),
        (''num_occurrences'', element_get element ''num_occurrences''),
        (''percentage_hits'', element_get element ''percentage_hits'')]"

fun PfamClan_loop ::
  "('f, 'd) attrs \<Rightarrow> ('f, 'd) element list \<Rightarrow> ('f, 'd) exn + ('f, 'd) attrs" where
  "PfamClan_loop self [] = Inr self"
| "PfamClan_loop self (el # els) =
     (if tag el = ''members'' then
        (case map_of self ''families'' of
           Some (PList fams) \<Rightarrow>
             PfamClan_loop
               (assign self ''families'' (PList (fams @ map PfamClanMember (children el)))) els
         | _ \<Rightarrow> if children el = [] then PfamClan_loop self els else Inl AttributeError)
      else (case setattr self (tag el) (etext el) of
              Inl e \<Rightarrow> Inl e
            | Inr self' \<Rightarrow> PfamClan_loop self' els))"


definition PfamClan ::
  "('f, 'd) py \<Rightarrow> ('f, 'd) py \<Rightarrow> ('f, 'd) element \<Rightarrow> ('f, 'd) exn + ('f, 'd) py" where
  "PfamClan release_version release_date entry =
     (case PfamClan_loop
             [(''pfam_release_version'', release_version), (''pfam_release_date'', release_date),
              (''description'', PNone), (''comment'', PNone), (''families'', PList [])]
             (children entry) of
        Inl e \<Rightarrow> Inl e
      | Inr self \<Rightarrow>
          (case self_description self of
             Inl e \<Rightarrow> Inl e
           | Inr description \<Rightarrow>
               Inr (PObj ''PfamClan''
                     (assign self ''entry''
                        (PfamEntry (element_get entry ''entry_type'') (element_get entry ''id'')
                           (element_get entry ''accession'') description)))))"

section \<open>The query facade\<close>

text \<open>
  \<open>family\<close>, \<open>clan\<close> and \<open>protein\<close> read the release of the snapshot off the root the
  same way: \<open>root.get('release')\<close>, then \<open>datetime.strptime(root.get('release_date'),
  '%Y-%m-%d')\<close>, then \<open>root[0]\<close>.  A reply that is text has no \<open>get\<close>; \<open>strptime\<close> takes
  a \<open>str\<close> only; a root without children has no \<open>root[0]\<close>.
\<close>

definition release_of ::
  "('f, 'd) env \<Rightarrow> ('f, 'd) reply \<Rightarrow>
   ('f, 'd) exn + (('f, 'd) py \<times> ('f, 'd) py \<times> ('f, 'd) element)" where
  "release_of env reply =
     (case reply of
        Text t \<Rightarrow> Inl AttributeError
      | Root root' \<Rightarrow>
          (let release_version = element_get root' ''release'' in
           case element_get root' ''release_date'' of
             PStr v \<Rightarrow>
               (case datetime_strptime env v ''%Y-%m-%d'' of
                  None \<Rightarrow> Inl ValueError
                | Some release_date \<Rightarrow>
                    (case children root' of
                       [] \<Rightarrow> Inl IndexError
                     | entry # rest \<Rightarrow> Inr (release_version, PDate release_date, entry)))
           | _ \<Rightarrow> Inl TypeError))"

type_synonym ('f, 'd) result = "(('f, 'd) exn + ('f, 'd) py) \<times> 'f state"

definition family :: "('f, 'd) env \<Rightarrow> ('f, 'd) py \<Rightarrow> 'f state \<Rightarrow> ('f, 'd) result" where
  "family env ident s =
     (case ident of
        PStr i \<Rightarrow>
          (case request env (''/family/'' @ i) None None None s of
             (Inl e, s') \<Rightarrow> (Inl e, s')
           | (Inr root', s') \<Rightarrow>
               (case release_of env root' of
                  Inl e \<Rightarrow> (Inl e, s')
                | Inr (release_version, release_date, entry) \<Rightarrow>
                    (PfamFamily release_version release_date entry, s')))
      | _ \<Rightarrow> (Inl TypeError, s))"

definition clan :: "('f, 'd) env \<Rightarrow> ('f, 'd) py \<Rightarrow> 'f state \<Rightarrow> ('f, 'd) result" where
  "clan env ident s =
     (case ident of
        PStr i \<Rightarrow>
          (case request env (''/clan/'' @ i) None None None s of
             (Inl e, s') \<Rightarrow> (Inl e, s')
           | (Inr root', s') \<Rightarrow>
               (case release_of env root' of
                  Inl e \<Rightarrow> (Inl e, s')
                | Inr (release_version, release_date, entry) \<Rightarrow>
                    (PfamClan release_version release_date entry, s')))
      | _ \<Rightarrow> (Inl TypeError, s))"

definition protein :: "('f, 'd) env \<Rightarrow> ('f, 'd) py \<Rightarrow> 'f state \<Rightarrow> ('f, 'd) result" where
  "protein env ident s =
     (case ident of
        PStr i \<Rightarrow>
          (case request env (''/protein/'' @ i) None None None s of
             (Inl e, s') \<Rightarrow> (Inl e, s')
           | (Inr root', s') \<Rightarrow>
               (case release_of env root' of
                  Inl e \<Rightarrow> (Inl e, s')
                | Inr (release_version, release_date, entry) \<Rightarrow>
                    (PfamProtein release_version release_date entry, s')))
      | _ \<Rightarrow> (Inl TypeError, s))"

fun families_loop :: "string list \<Rightarrow> ('f, 'd) py list \<Rightarrow> ('f, 'd) py list" where
  "families_loop [] output = output"
| "families_loop (line # lines) output =
     (let fields = split [CHR 0x09] line in
      if length fields = 3
      then families_loop lines
             (output @ [PfamEntry (PStr ''Pfam-A'') (PStr (fields ! 1)) (PStr (fields ! 0))
                          (PStr (fields ! 2))])
      else families_loop lines output)"

definition families :: "('f, 'd) env \<Rightarrow> 'f state \<Rightarrow> ('f, 'd) result" where
  "families env s =
     (let (params, s0) = new_dict [(''output'', ''text'')] s in
      case request env ''/families'' (Some params) None None s0 of
        (Inl e, s') \<Rightarrow> (Inl e, s')
      | (Inr (Text t), s') \<Rightarrow> (Inr (PList (families_loop (splitlines t) [])), s')
      | (Inr (Root root'), s') \<Rightarrow> (Inl AttributeError, s'))"

fun clans_loop :: "string list \<Rightarrow> ('f, 'd) py list \<Rightarrow> ('f, 'd) py list" where
  "clans_loop [] output = output"
| "clans_loop (line # lines) output =
     (let fields = split [CHR 0x09] line in
      if length fields = 3
      then clans_loop lines
             (output @ [PfamEntry (PStr ''Clan'') (PStr (fields ! 1)) (PStr (fields ! 0))
                          (PStr (fields ! 2))])
      else clans_loop lines output)"

definition clans :: "('f, 'd) env \<Rightarrow> 'f state \<Rightarrow> ('f, 'd) result" where
  "clans env s =
     (let (params, s0) = new_dict [(''output'', ''text'')] s in
      case request env ''/clans'' (Some params) None None s0 of
        (Inl e, s') \<Rightarrow> (Inl e, s')
      | (Inr (Text t), s') \<Rightarrow> (Inr (PList (clans_loop (splitlines t) [])), s')
      | (Inr (Root root'), s') \<Rightarrow> (Inl AttributeError, s'))"

fun proteins_loop :: "string list \<Rightarrow> ('f, 'd) py list \<Rightarrow> ('f, 'd) py list" where
  \<comment> \<open>\<open>line.split('/')\<close> is never empty, so its element 0 is its head\<close>
  "proteins_loop [] output = output"
| "proteins_loop (line # lines) output =
     proteins_loop lines (output @ [PStr (hd (split ''/'' line))])"

definition proteins :: "('f, 'd) env \<Rightarrow> ('f, 'd) py \<Rightarrow> 'f state \<Rightarrow> ('f, 'd) result" where
  "proteins env fam s =
     (let (params, s0) =
            new_dict [(''format'', ''pfam''), (''alnType'', ''full''), (''order'', ''a''),
                      (''case'', ''l''), (''gaps'', ''none''), (''download'', ''0''),
                      (''output'', ''text'')] s in
      case fam of
        PStr f \<Rightarrow>
          (case request env (''/family/'' @ f @ ''/alignment/full/format'') (Some params)
                  None None s0 of
             (Inl e, s') \<Rightarrow> (Inl e, s')
           | (Inr (Text t), s') \<Rightarrow> (Inr (PList (proteins_loop (splitlines t) [])), s')
           | (Inr (Root root'), s') \<Rightarrow> (Inl AttributeError, s'))
      | _ \<Rightarrow> (Inl TypeError, s0))"


section \<open>Fetches hanging off mapped objects\<close>

definition PfamEntry_fetch :: "('f, 'd) env \<Rightarrow> ('f, 'd) py \<Rightarrow> 'f state \<Rightarrow> ('f, 'd) result" where
  "PfamEntry_fetch env self s =
     (case getattr self ''type'' of
        Inl e \<Rightarrow> (Inl e, s)
      | Inr t \<Rightarrow>
          if t = PStr ''Pfam-A'' then
            (case getattr self ''accession'' of
               Inl e \<Rightarrow> (Inl e, s)
             | Inr accession \<Rightarrow> family env accession s)
          else if t = PStr ''Clan'' then
            (case getattr self ''accession'' of
               Inl e \<Rightarrow> (Inl e, s)
             | Inr accession \<Rightarrow> clan env accession s)
          else if t = PStr ''sequence'' then
            (case getattr self ''accession'' of
               Inl e \<Rightarrow> (Inl e, s)
             | Inr accession \<Rightarrow> protein env accession s)
          else (Inr PNone, s))"








section \<open>A test environment\<close>

text \<open>
  The theorems below hold for every environment.  To run the module on concrete
  documents, this section fixes one: \<open>float\<close> on the plain decimal literals (an optional
  sign, digits, an optional point and digits; every other string is a \<open>ValueError\<close>
  here), with the rational a literal denotes as its value; \<open>strptime\<close> on the one date
  the documents carry; a server that answers every request with status 200 and one
  body; and a parser that knows the document of that body.
\<close>

definition is_digit :: "char \<Rightarrow> bool" where
  "is_digit c = (c \<in> set ''0123456789'')"

definition digit_value :: "char \<Rightarrow> nat" where
  "digit_value c = of_char c - 48"

definition decimal_float :: "string \<Rightarrow> rat option" where
  "decimal_float s =
     (let (neg, r) =
            (case s of
               [] \<Rightarrow> (False, [])
             | c # cs \<Rightarrow> if c = CHR ''-'' then (True, cs)
                         else if c = CHR ''+'' then (False, cs) else (False, s));
          ip = takeWhile is_digit r;
          r1 = dropWhile is_digit r;
          (fp, r2) =
            (case r1 of
               [] \<Rightarrow> ([], [])
             | c # cs \<Rightarrow> if c = CHR ''.'' then (takeWhile is_digit cs, dropWhile is_digit cs)
                         else ([], r1))
      in if r2 \<noteq> [] \<or> (ip = [] \<and> fp = []) then None
         else Some ((if neg then - 1 else 1)
                    * of_nat (foldl (\<lambda>n c. 10 * n + digit_value c) 0 (ip @ fp))
                    / 10 ^ length fp))"

datatype tfloat = NaN | Num int

definition nan_float :: "string \<Rightarrow> tfloat option" where
  \<comment> \<open>\<open>float\<close> on \<open>nan\<close> in any case, with an optional sign, and on the integer literals
      of at most 15 digits, which binary64 holds exactly; every other string is a
      \<open>ValueError\<close> here\<close>
  "nan_float s =
     (let (neg, r) =
            (case s of
               [] \<Rightarrow> (False, [])
             | c # cs \<Rightarrow> if c = CHR ''-'' then (True, cs)
                         else if c = CHR ''+'' then (False, cs) else (False, s))
      in if r \<in> set [''nan'', ''naN'', ''nAn'', ''nAN'', ''Nan'', ''NaN'', ''NAn'', ''NAN'']
         then Some NaN
         else if r \<noteq> [] \<and> list_all is_digit r \<and> length r \<le> 15
         then Some (Num ((if neg then - 1 else 1)
                         * int (foldl (\<lambda>n c. 10 * n + digit_value c) 0 r)))
         else None)"

fun float_eq :: "tfloat \<Rightarrow> tfloat \<Rightarrow> bool" where
  \<comment> \<open>\<open>x == y\<close> on these floats: a NaN is equal to nothing, itself included\<close>
  "float_eq (Num a) (Num b) = (a = b)"
| "float_eq x y = False"

definition test_env :: "string \<Rightarrow> (rat, nat \<times> nat \<times> nat) element \<Rightarrow> (rat, nat \<times> nat \<times> nat) env" where
  "test_env body doc =
     \<lparr>builtin_float = decimal_float,
      datetime_strptime =
        (\<lambda>v fmt. if v = ''2022-02-01'' \<and> fmt = ''%Y-%m-%d'' then Some (2022, 2, 1) else None),
      ElementTree_fromstring = (\<lambda>t. if t = sub_xmlns body then Some doc else None),
      requests_get = (\<lambda>log rq. Inr \<lparr>status_code = 200, resp_text = body\<rparr>)\<rparr>"

definition dq :: string where
  \<comment> \<open>the double quote\<close>
  "dq = [CHR 0x22]"

definition family_body :: string where
  "family_body =
     ''<pfam xmlns='' @ dq @ ''https://pfam.xfam.org/'' @ dq
     @ '' release='' @ dq @ ''33.1'' @ dq @ '' release_date='' @ dq @ ''2022-02-01'' @ dq @ ''>''
     @ ''<entry entry_type='' @ dq @ ''Pfam-A'' @ dq @ '' accession='' @ dq @ ''PF00001'' @ dq
     @ '' id='' @ dq @ ''FAMILY1'' @ dq @ ''>''
     @ ''<curation_details><num_seqs><seed>10</seed><full>20</full></num_seqs></curation_details>''
     @ ''</entry></pfam>''"

definition family_xml :: string where
  \<comment> \<open>\<open>family_body\<close> without its namespace declaration: what the parser is given\<close>
  "family_xml =
     ''<pfam release='' @ dq @ ''33.1'' @ dq @ '' release_date='' @ dq @ ''2022-02-01'' @ dq @ ''>''
     @ ''<entry entry_type='' @ dq @ ''Pfam-A'' @ dq @ '' accession='' @ dq @ ''PF00001'' @ dq
     @ '' id='' @ dq @ ''FAMILY1'' @ dq @ ''>''
     @ ''<curation_details><num_seqs><seed>10</seed><full>20</full></num_seqs></curation_details>''
     @ ''</entry></pfam>''"

definition family_doc :: "('f, 'd) element" where
  "family_doc =
     Element ''pfam'' [(''release'', PStr ''33.1''), (''release_date'', PStr ''2022-02-01'')]
       PNone PNone
       [Element ''entry''
          [(''entry_type'', PStr ''Pfam-A''), (''accession'', PStr ''PF00001''),
           (''id'', PStr ''FAMILY1'')]
          PNone PNone
          [Element ''curation_details'' [] PNone PNone
             [Element ''num_seqs'' [] PNone PNone
                [Element ''seed'' [] (PStr ''10'') PNone [],
                 Element ''full'' [] (PStr ''20'') PNone []]]]]"

definition error_body :: string where
  "error_body = ''<error>oops</error>''"

definition error_doc :: "('f, 'd) element" where
  "error_doc = Element ''error'' [] (PStr ''oops'') PNone []"

definition protein_body :: "string \<Rightarrow> string" where
  \<comment> \<open>a protein response whose taxonomy element has the text \<open>t\<close>\<close>
  "protein_body t =
     ''<pfam xmlns='' @ dq @ ''https://pfam.xfam.org/'' @ dq
     @ '' release='' @ dq @ ''33.1'' @ dq @ '' release_date='' @ dq @ ''2022-02-01'' @ dq @ ''>''
     @ ''<entry entry_type='' @ dq @ ''sequence'' @ dq @ '' accession='' @ dq @ ''P12345'' @ dq
     @ '' id='' @ dq @ ''TEST_ECOLI'' @ dq @ ''>''
     @ ''<taxonomy tax_id='' @ dq @ ''562'' @ dq @ '' species_name='' @ dq @ ''Escherichia coli''
     @ dq @ ''>'' @ t @ ''</taxonomy>''
     @ ''</entry></pfam>''"

definition protein_doc :: "string \<Rightarrow> ('f, 'd) element" where
  "protein_doc t =
     Element ''pfam'' [(''release'', PStr ''33.1''), (''release_date'', PStr ''2022-02-01'')]
       PNone PNone
       [Element ''entry''
          [(''entry_type'', PStr ''sequence''), (''accession'', PStr ''P12345''),
           (''id'', PStr ''TEST_ECOLI'')]
          PNone PNone
          [Element ''taxonomy''
             [(''tax_id'', PStr ''562''), (''species_name'', PStr ''Escherichia coli'')]
             (if t = [] then PNone else PStr t) PNone []]]"



definition match_element :: "('f, 'd) element" where
  \<comment> \<open>a match of a protein response, after normalisation\<close>
  "match_element =
     Element ''match''
       [(''accession'', PStr ''PF00001''), (''id'', PStr ''FAMILY1''), (''type'', PStr ''Pfam-A'')]
       PNone PNone
       [Element ''location'' [(''evidence'', PStr ''hmmer v3.0'')] PNone PNone []]"

definition families_body :: string where
  "families_body =
     ''PF00001'' @ [CHR 0x09] @ ''FAMILY1'' @ [CHR 0x09] @ ''some description'' @ [CHR 0x0A]"

definition alignment_body :: string where
  \<comment> \<open>two sequences with an empty line between them\<close>
  "alignment_body =
     ''Q1_HUMAN/1-5 acdef'' @ [CHR 0x0A] @ [CHR 0x0A] @ ''Q2_MOUSE/2-6 acdef'' @ [CHR 0x0A]"

section \<open>The specification's wording, and an invariant\<close>

text \<open>
  Two rules are worded by the specification otherwise than the code computes them.  They
  are written down as the specification has them, to be compared with the code.
\<close>

definition nonempty_line_names :: "string \<Rightarrow> string list" where
  \<comment> \<open>The specification's wording of the result of \<open>proteins\<close>, for comparison with
      the code: for each non-empty line, the part before the first \<open>/\<close>.\<close>
  "nonempty_line_names t =
     map (takeWhile (\<lambda>c. c \<noteq> CHR ''/'')) (filter (\<lambda>line. line \<noteq> []) (splitlines t))"

definition rstrip_one :: "char \<Rightarrow> string \<Rightarrow> string" where
  \<comment> \<open>The specification's wording of the taxonomy rule, for comparison with the code:
      one trailing \<open>c\<close> removed.\<close>
  "rstrip_one c s = (if s \<noteq> [] \<and> last s = c then butlast s else s)"


definition protein_attrs_ok :: "('f, 'd) attrs \<Rightarrow> bool" where
  \<comment> \<open>what every step of \<open>PfamProtein_loop\<close> keeps: \<open>matches\<close> is a list and
      \<open>description\<close> is set\<close>
  "protein_attrs_ok self =
     ((case map_of self ''matches'' of Some (PList ms) \<Rightarrow> True | _ \<Rightarrow> False)
      \<and> map_of self ''description'' \<noteq> None)"

section \<open>Facts about the string methods\<close>

lemma dropWhile_Nil_iff_all: "dropWhile P xs = [] \<longleftrightarrow> list_all P xs"
  by (induction xs) auto

lemma list_all_takeWhile: "list_all P (takeWhile P xs)"
  by (induction xs) auto

lemma rev_dropWhile_rev_split: "u = rev (dropWhile P (rev u)) @ rev (takeWhile P (rev u))"
  by (metis rev_append rev_rev_ident takeWhile_dropWhile_id)

lemma rev_dropWhile_rev_hd:
  assumes "rev (dropWhile P (rev u)) \<noteq> []"
  shows "hd (rev (dropWhile P (rev u))) = hd u"
  using assms rev_dropWhile_rev_split [of u P] by (metis hd_append2)

text \<open>\<open>strip\<close> cuts whitespace off both ends and nothing else.\<close>

lemma strip_decomposition:
  "\<exists>l r. s = l @ strip s @ r \<and> list_all is_space l \<and> list_all is_space r"
proof -
  let ?u = "dropWhile is_space s"
  have 1: "s = takeWhile is_space s @ ?u" by simp
  have 2: "?u = strip s @ rev (takeWhile is_space (rev ?u))"
    unfolding strip_def by (rule rev_dropWhile_rev_split)
  have "s = takeWhile is_space s @ strip s @ rev (takeWhile is_space (rev ?u))"
    using 1 2 by metis
  moreover have "list_all is_space (takeWhile is_space s)"
    by (rule list_all_takeWhile)
  moreover have "list_all is_space (rev (takeWhile is_space (rev ?u)))"
    by (simp add: list_all_takeWhile)
  ultimately show ?thesis by blast
qed

lemma strip_no_leading_space: "strip s \<noteq> [] \<Longrightarrow> \<not> is_space (hd (strip s))"
proof -
  assume ne: "strip s \<noteq> []"
  let ?u = "dropWhile is_space s"
  from ne have h: "hd (strip s) = hd ?u" unfolding strip_def by (rule rev_dropWhile_rev_hd)
  have "?u = [] \<Longrightarrow> strip s = []" by (simp only: strip_def rev.simps dropWhile.simps)
  with ne have "?u \<noteq> []" by blast
  then have "\<not> is_space (hd ?u)" by (rule hd_dropWhile)
  with h show ?thesis by simp
qed

lemma strip_no_trailing_space: "strip s \<noteq> [] \<Longrightarrow> \<not> is_space (last (strip s))"
proof -
  assume ne: "strip s \<noteq> []"
  then have "dropWhile is_space (rev (dropWhile is_space s)) \<noteq> []" by (simp add: strip_def)
  then have "\<not> is_space (hd (dropWhile is_space (rev (dropWhile is_space s))))"
    by (rule hd_dropWhile)
  with ne show ?thesis by (simp add: strip_def last_rev)
qed

lemma strip_idem: "strip (strip s) = strip s"
proof (cases "strip s = []")
  case True
  have "strip [] = []" by (simp add: strip_def)
  with True show ?thesis by simp
next
  case False
  then have a: "dropWhile is_space (strip s) = strip s"
    by (simp add: dropWhile_eq_self_iff strip_no_leading_space)
  have "strip (strip s) = rev (dropWhile is_space (rev (strip s)))"
    unfolding strip_def [of "strip s"] a ..
  also have "\<dots> = strip s" by (simp add: strip_def)
  finally show ?thesis .
qed

lemma strip_empty_iff: "strip s = [] \<longleftrightarrow> list_all is_space s"
proof -
  have "strip s = [] \<longleftrightarrow> list_all is_space (dropWhile is_space s)"
    by (simp only: strip_def rev_is_Nil_conv dropWhile_Nil_iff_all list_all_rev)
  also have "\<dots> \<longleftrightarrow> list_all is_space s"
    by (induction s) auto
  finally show ?thesis .
qed

lemma split_from_not_Nil: "split_from sep cur s \<noteq> []"
proof (induction sep cur s rule: split_from.induct)
  case (1 sep cur s)
  then show ?case by (subst split_from.simps) simp
qed

lemma split_not_Nil: "split sep s \<noteq> []"
  by (simp add: split_def split_from_not_Nil)

text \<open>The methods on some strings, as Python computes them.\<close>

lemma split_examples:
  "split ''; '' ''Bacteria; Firmicutes'' = [''Bacteria'', ''Firmicutes'']"
  "split ''; '' ''a; ; b; '' = [''a'', [], ''b'', []]"
  "split ''/'' ''no slash'' = [''no slash'']"
  "split ''/'' [] = [[]]"
  by (simp_all add: split_def split_from.simps)

lemma splitlines_examples:
  "splitlines [] = []"
  "splitlines [CHR 0x0A] = [[]]"
  "splitlines (''a'' @ [CHR 0x0D, CHR 0x0A] @ ''b'') = [''a'', ''b'']"
  "splitlines (''a'' @ [CHR 0x0A, CHR 0x0D] @ ''b'' @ [CHR 0x0A]) = [''a'', [], ''b'']"
  by (simp_all add: splitlines_def splitlines_from.simps is_linebreak_def)

lemma strip_examples:
  "strip ([CHR 0x09] @ '' 33.1 '' @ [CHR 0x0D, CHR 0x0A]) = ''33.1''"
  "strip ''a b'' = ''a b''"
  "rstrip (CHR ''.'') ''Firmicutes..'' = ''Firmicutes''"
  by (simp_all add: strip_def rstrip_def is_space_def)

lemma sub_xmlns_examples:
  "sub_xmlns ''<a b='' = ''<a b=''"
  "sub_xmlns (''<a xmlns='' @ [CHR 0x22] @ ''u'' @ [CHR 0x22] @ ''><b xmlns='' @ [CHR 0x22] @ ''v''
              @ [CHR 0x22] @ ''/></a>'')
     = ''<a><b xmlns='' @ [CHR 0x22] @ ''v'' @ [CHR 0x22] @ ''/></a>''"
  "sub_xmlns (''<a xmlns='' @ [CHR 0x22, CHR 0x22] @ ''>'') = ''<a xmlns='' @ [CHR 0x22, CHR 0x22] @ ''>''"
  by (simp_all add: match_xmlns_def)

section \<open>The scalar normaliser\<close>

text \<open>
  Claim C2, as amended.  \<open>xml_process_value\<close> returns a value for every input (the only
  exception its body can meet is the \<open>ValueError\<close> of \<open>float\<close>, which it catches), and
  the value is: \<open>None\<close> for \<open>None\<close>; the input itself for every input that is neither
  \<open>None\<close> nor a string; for a string, \<open>None\<close> when nothing is left after trimming, which
  is the case exactly for the strings of whitespace only; the float when the trimmed
  string is not empty and parses; and the trimmed string otherwise.  (\<open>float\<close> is asked
  only about non-empty strings; Python's parses no empty string.)  For a string \<open>n\<close> that
  parses, the function returns the same float \<open>x\<close> for \<open>n\<close> and for \<open>n\<close> trimmed, so the
  comparison \<open>normalize(n) == normalize(n.strip())\<close> is the comparison \<open>x == x\<close>: true for
  every float but a NaN.
\<close>

theorem xml_process_value_cases:
  "xml_process_value pyfloat PNone = PNone
   \<and> (v \<noteq> PNone \<and> \<not> is_str v \<longrightarrow> xml_process_value pyfloat v = v)
   \<and> (strip e = [] \<longrightarrow> xml_process_value pyfloat (PStr e) = PNone)
   \<and> (list_all is_space w \<longrightarrow> xml_process_value pyfloat (PStr w) = PNone)
   \<and> (strip n \<noteq> [] \<and> pyfloat (strip n) = Some x \<longrightarrow>
        xml_process_value pyfloat (PStr n) = PFloat x
        \<and> xml_process_value pyfloat (PStr (strip n)) = PFloat x
        \<and> is_float (xml_process_value pyfloat (PStr n))
        \<and> py_eq feq (xml_process_value pyfloat (PStr n))
             (xml_process_value pyfloat (PStr (strip n))) = Some (feq x x))
   \<and> (strip t \<noteq> [] \<and> pyfloat (strip t) = None \<longrightarrow>
        xml_process_value pyfloat (PStr t) = PStr (strip t))"
proof -
  have 1: "v \<noteq> PNone \<and> \<not> is_str v \<longrightarrow> xml_process_value pyfloat v = v"
    by (cases v) (simp_all add: xml_process_value_def)
  have 2: "strip e = [] \<longrightarrow> xml_process_value pyfloat (PStr e) = PNone"
    by (simp add: xml_process_value_def)
  have 3: "list_all is_space w \<longrightarrow> xml_process_value pyfloat (PStr w) = PNone"
    by (simp add: xml_process_value_def strip_empty_iff [symmetric])
  have 4: "strip n \<noteq> [] \<and> pyfloat (strip n) = Some x \<longrightarrow>
        xml_process_value pyfloat (PStr n) = PFloat x
        \<and> xml_process_value pyfloat (PStr (strip n)) = PFloat x
        \<and> is_float (xml_process_value pyfloat (PStr n))
        \<and> py_eq feq (xml_process_value pyfloat (PStr n))
             (xml_process_value pyfloat (PStr (strip n))) = Some (feq x x)"
    by (simp add: xml_process_value_def strip_idem)
  have 5: "strip t \<noteq> [] \<and> pyfloat (strip t) = None \<longrightarrow>
        xml_process_value pyfloat (PStr t) = PStr (strip t)"
    by (simp add: xml_process_value_def)
  from 1 2 3 4 5 show ?thesis by (simp add: xml_process_value_def)
qed

theorem xml_process_value_cases_witness:
  "xml_process_value decimal_float (PNone :: (rat, nat) py) = PNone
   \<and> xml_process_value decimal_float (PList [PStr '' 1 ''] :: (rat, nat) py) = PList [PStr '' 1 '']
   \<and> xml_process_value decimal_float (PStr [] :: (rat, nat) py) = PNone
   \<and> xml_process_value decimal_float (PStr [CHR '' '', CHR 0x09, CHR 0x0A] :: (rat, nat) py) = PNone
   \<and> xml_process_value decimal_float (PStr '' 33.1  '' :: (rat, nat) py) = PFloat (331 / 10)
   \<and> xml_process_value decimal_float (PStr ''33.1'' :: (rat, nat) py) = PFloat (331 / 10)
   \<and> xml_process_value decimal_float (PStr ''  Pfam-A '' :: (rat, nat) py) = PStr ''Pfam-A''
   \<and> py_eq float_eq (xml_process_value nan_float (PStr '' 10 '' :: (tfloat, nat) py))
       (xml_process_value nan_float (PStr (strip '' 10 ''))) = Some True"
proof -
  from xml_process_value_cases [of decimal_float "PList [PStr '' 1 '']" "[]"
          "[CHR '' '', CHR 0x09, CHR 0x0A]" "'' 33.1  ''" "331 / 10" "(=)" "''  Pfam-A ''"]
  have a: "xml_process_value decimal_float (PNone :: (rat, nat) py) = PNone
   \<and> xml_process_value decimal_float (PList [PStr '' 1 ''] :: (rat, nat) py) = PList [PStr '' 1 '']
   \<and> xml_process_value decimal_float (PStr [] :: (rat, nat) py) = PNone
   \<and> xml_process_value decimal_float (PStr [CHR '' '', CHR 0x09, CHR 0x0A] :: (rat, nat) py) = PNone
   \<and> xml_process_value decimal_float (PStr '' 33.1  '' :: (rat, nat) py) = PFloat (331 / 10)
   \<and> xml_process_value decimal_float (PStr ''33.1'' :: (rat, nat) py) = PFloat (331 / 10)
   \<and> xml_process_value decimal_float (PStr ''  Pfam-A '' :: (rat, nat) py) = PStr ''Pfam-A''"
    by (auto simp: strip_def is_space_def decimal_float_def is_digit_def digit_value_def)
  have s: "strip '' 10 '' \<noteq> [] \<and> nan_float (strip '' 10 '') = Some (Num 10)"
    by (simp add: strip_def is_space_def nan_float_def is_digit_def digit_value_def)
  from xml_process_value_cases [where pyfloat = nan_float and n = "'' 10 ''" and x = "Num 10"
         and feq = float_eq, THEN conjunct2, THEN conjunct2, THEN conjunct2, THEN conjunct2,
         THEN conjunct1, THEN mp, OF s, THEN conjunct2, THEN conjunct2, THEN conjunct2]
  have b: "py_eq float_eq (xml_process_value nan_float (PStr '' 10 '' :: (tfloat, nat) py))
       (xml_process_value nan_float (PStr (strip '' 10 ''))) = Some True"
    by simp
  from a b show ?thesis by blast
qed

text \<open>
  Claim C2 as stated fails.  Python's \<open>float\<close> parses \<open>nan\<close>, so \<open>" nan "\<close> is a
  float-parsable string; \<open>xml_process_value\<close> returns a NaN for it and for its trimmed
  form, and a NaN is not equal to a NaN: \<open>normalize(s) == normalize(s.strip())\<close> is
  \<open>False\<close>.
\<close>

theorem nan_equality_counterexample:
  "nan_float (strip '' nan '') = Some NaN
   \<and> xml_process_value nan_float (PStr '' nan '' :: (tfloat, nat) py) = PFloat NaN
   \<and> xml_process_value nan_float (PStr (strip '' nan '') :: (tfloat, nat) py) = PFloat NaN
   \<and> py_eq float_eq (xml_process_value nan_float (PStr '' nan '' :: (tfloat, nat) py))
       (xml_process_value nan_float (PStr (strip '' nan ''))) = Some False"
  by (simp add: xml_process_value_def strip_def is_space_def nan_float_def)

section \<open>The tree normaliser\<close>

lemma xml_process_value_idem:
  "xml_process_value pyfloat (xml_process_value pyfloat v) = xml_process_value pyfloat v"
  by (cases v) (auto simp: xml_process_value_def Let_def strip_idem split: option.splits)

lemma xml_process_tree_idem:
  "xml_process_tree pyfloat (xml_process_tree pyfloat t) = xml_process_tree pyfloat t"
  by (induction t) (auto simp: xml_process_value_idem)

lemma xml_process_tree_fields:
  "tag (xml_process_tree pyfloat e) = tag e"
  "etext (xml_process_tree pyfloat e) = xml_process_value pyfloat (etext e)"
  "attrib (xml_process_tree pyfloat e)
     = map (\<lambda>(name, v). (name, xml_process_value pyfloat v)) (attrib e)"
  "etail (xml_process_tree pyfloat e) = etail e"
  "children (xml_process_tree pyfloat e) = map (xml_process_tree pyfloat) (children e)"
  by (cases e; simp)+

lemma element_iter_xml_process_tree:
  "element_iter (xml_process_tree pyfloat t) = map (xml_process_tree pyfloat) (element_iter t)"
proof (induction t)
  case (Element tg atts tx tail ch)
  show ?case
    by (simp add: map_concat comp_def Element.IH cong: map_cong)
qed

lemma xml_process_tree_example:
  "xml_process_tree decimal_float
     (Element ''pfam'' [(''release'', PStr ''33.1''), (''name'', PStr '' a b '')] (PStr ''  '')
        (PStr '' 1 '')
        [Element ''entry'' [] (PStr '' 10 '') PNone [],
         Element ''entry'' [(''id'', PStr [])] (PStr ''x y'') PNone []])
   = (Element ''pfam'' [(''release'', PFloat (331 / 10)), (''name'', PStr ''a b'')] PNone
        (PStr '' 1 '')
        [Element ''entry'' [] (PFloat 10) PNone [],
         Element ''entry'' [(''id'', PNone)] (PStr ''x y'') PNone []]
      :: (rat, nat) element)"
  by (simp add: xml_process_value_def strip_def is_space_def decimal_float_def is_digit_def
        digit_value_def)

text \<open>
  Claim C4.  Normalising a tree twice gives the tree normalised once.  The elements of
  the normalised tree, in document order, are the elements of the tree in document
  order, each normalised: the same tags, each text replaced by its normalised value,
  each attribute kept under its name with its value replaced by the normalised value,
  and the tails as they were.  A normalised value is \<open>None\<close>, a float or a trimmed string
  that does not parse, each of which the normaliser leaves as it is, hence the
  idempotence.  The function works in place and elements have no \<open>==\<close> of their own, so
  the equation is one of contents: the second pass puts back every value it finds, a
  float as the very object it found.
\<close>

theorem xml_process_tree_idempotent:
  "xml_process_tree pyfloat (xml_process_tree pyfloat t) = xml_process_tree pyfloat t
   \<and> element_iter (xml_process_tree pyfloat t)
       = map (xml_process_tree pyfloat) (element_iter t)
   \<and> map tag (element_iter (xml_process_tree pyfloat t)) = map tag (element_iter t)
   \<and> map etext (element_iter (xml_process_tree pyfloat t))
       = map (\<lambda>e. xml_process_value pyfloat (etext e)) (element_iter t)
   \<and> map attrib (element_iter (xml_process_tree pyfloat t))
       = map (\<lambda>e. map (\<lambda>(name, v). (name, xml_process_value pyfloat v)) (attrib e))
           (element_iter t)
   \<and> map etail (element_iter (xml_process_tree pyfloat t)) = map etail (element_iter t)"
  by (simp add: xml_process_tree_idem element_iter_xml_process_tree xml_process_tree_fields
        comp_def)

section \<open>The transport envelope: errors and effects\<close>

lemma map_of_setdefault:
  "map_of (setdefault d k v) k = Some (case map_of d k of None \<Rightarrow> v | Some x \<Rightarrow> x)"
  by (auto simp: setdefault_def map_add_def split: option.splits)

lemma setdefault_present: "map_of d k = Some x \<Longrightarrow> setdefault d k v = d"
  by (simp add: setdefault_def)

lemma setdefault_absent: "map_of d k = None \<Longrightarrow> setdefault d k v = d @ [(k, v)]"
  by (simp add: setdefault_def)

lemma request_state:
  "snd (request env path params headers timeout s) =
     s\<lparr>dicts := (dicts s)(params_object params :=
                  setdefault (dicts s (params_object params)) ''output'' ''xml''),
       sent := sent s @ [\<lparr>req_url = ''https://pfam.xfam.org'' @ path,
                          req_params = setdefault (dicts s (params_object params)) ''output'' ''xml'',
                          req_headers = headers, req_timeout = timeout\<rparr>]\<rparr>"
  by (simp add: request_def Let_def split: sum.splits option.splits)

text \<open>
  Claim C3.  In XML mode (the \<open>output\<close> parameter is left out or is \<open>xml\<close>, the only
  mode in which the body is parsed), when the response has a 2xx status and its body,
  once the namespace declaration is cut out, parses to a root whose tag is \<open>error\<close>,
  \<open>request\<close> raises \<open>Exception(root.text)\<close>: the message is the text of the root as
  parsed.  The tree normaliser has not run: the message is not normalised, and the
  outcome is the same whatever \<open>float\<close> does.  \<open>family\<close>, which calls \<open>request\<close> without
  \<open>params\<close>, fails with the same exception.
\<close>

theorem request_error_document:
  assumes "map_of (dicts s (params_object params)) ''output'' = None
           \<or> map_of (dicts s (params_object params)) ''output'' = Some ''xml''"
    and "requests_get env (sent s)
           \<lparr>req_url = ''https://pfam.xfam.org'' @ path,
            req_params = setdefault (dicts s (params_object params)) ''output'' ''xml'',
            req_headers = headers, req_timeout = timeout\<rparr> = Inr r"
    and "200 \<le> status_code r \<and> status_code r < 300"
    and "ElementTree_fromstring env (sub_xmlns (resp_text r)) = Some doc"
    and "tag doc = ''error''"
  shows "fst (request env path params headers timeout s) = Inl (Exception (etext doc))
         \<and> fst (request (env\<lparr>builtin_float := g\<rparr>) path params headers timeout s)
             = Inl (Exception (etext doc))
         \<and> (path = ''/family/'' @ i \<and> params = None \<and> headers = None \<and> timeout = None \<longrightarrow>
              fst (family env (PStr i) s) = Inl (Exception (etext doc)))"
proof -
  from assms(1) have xml: "map_of (setdefault (dicts s (params_object params)) ''output'' ''xml'')
                             ''output'' = Some ''xml''"
    by (auto simp: map_of_setdefault)
  have 1: "fst (request env path params headers timeout s) = Inl (Exception (etext doc))"
    using assms(2-5) xml by (simp add: request_def Let_def)
  have 2: "fst (request (env\<lparr>builtin_float := g\<rparr>) path params headers timeout s)
             = Inl (Exception (etext doc))"
    using assms(2-5) xml by (simp add: request_def Let_def)
  from 1 have 3: "path = ''/family/'' @ i \<and> params = None \<and> headers = None \<and> timeout = None \<longrightarrow>
              fst (family env (PStr i) s) = Inl (Exception (etext doc))"
    by (auto simp: family_def split: prod.splits sum.splits)
  from 1 2 3 show ?thesis by blast
qed

theorem request_error_document_witness:
  "fst (request (test_env error_body error_doc) ''/family/PF00001'' None None None init_state)
     = Inl (Exception (PStr ''oops''))
   \<and> fst (family (test_env error_body error_doc) (PStr ''PF00001'') init_state)
     = Inl (Exception (PStr ''oops''))"
  using request_error_document [of init_state None "test_env error_body error_doc"
          "''/family/PF00001''" None None "\<lparr>status_code = 200, resp_text = error_body\<rparr>"
          error_doc decimal_float "''PF00001''"]
  by (simp add: test_env_def init_state_def error_doc_def)

lemma setdefault_idem: "setdefault (setdefault d k v) k v' = setdefault d k v"
  by (cases "map_of d k") (simp_all add: setdefault_def map_add_def)

text \<open>
  Claim C10.  \<open>request\<close> writes into the dictionary it is given, before anything can
  fail: a dictionary without an \<open>output\<close> key has \<open>output\<close> mapped to \<open>xml\<close> appended,
  whatever the outcome of the call.  Without a \<open>params\<close> argument the dictionary written
  is the one at \<open>request_defaults\<close>; no other dictionary changes; and a second call
  without \<open>params\<close> finds the entry the first call left there.
\<close>

theorem request_setdefault:
  "(map_of (dicts s p) ''output'' = None \<longrightarrow>
      dicts (snd (request env path (Some p) headers timeout s)) p
        = dicts s p @ [(''output'', ''xml'')]
      \<and> map_of (dicts (snd (request env path (Some p) headers timeout s)) p) ''output''
        = Some ''xml'')
   \<and> dicts (snd (request env path None headers timeout s)) request_defaults
       = setdefault (dicts s request_defaults) ''output'' ''xml''
   \<and> (q \<noteq> params_object params \<longrightarrow>
        dicts (snd (request env path params headers timeout s)) q = dicts s q)
   \<and> dicts (snd (request env path' None headers' timeout'
                    (snd (request env path None headers timeout s)))) request_defaults
       = dicts (snd (request env path None headers timeout s)) request_defaults"
proof -
  have a: "map_of (dicts s p) ''output'' = None \<longrightarrow>
      dicts (snd (request env path (Some p) headers timeout s)) p
        = dicts s p @ [(''output'', ''xml'')]
      \<and> map_of (dicts (snd (request env path (Some p) headers timeout s)) p) ''output''
        = Some ''xml''"
    by (simp add: request_state params_object_def setdefault_absent map_add_def)
  have b: "dicts (snd (request env path None headers timeout s)) request_defaults
       = setdefault (dicts s request_defaults) ''output'' ''xml''"
    by (simp add: request_state params_object_def)
  have c: "q \<noteq> params_object params \<longrightarrow>
        dicts (snd (request env path params headers timeout s)) q = dicts s q"
    by (simp add: request_state)
  have d: "dicts (snd (request env path' None headers' timeout'
                    (snd (request env path None headers timeout s)))) request_defaults
       = dicts (snd (request env path None headers timeout s)) request_defaults"
    by (simp add: request_state params_object_def setdefault_idem)
  from a b c d show ?thesis by blast
qed

theorem request_setdefault_witness:
  "dicts (snd (request (test_env error_body error_doc) ''/families'' (Some 5) None None
                 (init_state\<lparr>dicts := (dicts init_state)(5 := [(''format'', ''pfam'')])\<rparr>))) 5
     = [(''format'', ''pfam''), (''output'', ''xml'')]
   \<and> dicts (snd (request (test_env error_body error_doc) ''/families'' (Some 5) None None
                 (init_state\<lparr>dicts := (dicts init_state)(5 := [(''format'', ''pfam'')])\<rparr>))) request_defaults
     = []
   \<and> dicts (snd (request (test_env error_body error_doc) ''/family/PF00001'' None None None
                 init_state)) request_defaults
     = [(''output'', ''xml'')]"
  using request_setdefault [of "init_state\<lparr>dicts := (dicts init_state)(5 := [(''format'', ''pfam'')])\<rparr>"
          5 "test_env error_body error_doc" "''/families''" None None request_defaults "Some 5"]
        request_setdefault [of init_state 5 "test_env error_body error_doc" "''/family/PF00001''" None None]
  by (simp add: init_state_def params_object_def request_defaults_def setdefault_def)

section \<open>Fetches from entries, matches and proteins\<close>

text \<open>
  Claim C9.  \<open>fetch\<close> on an entry whose \<open>type\<close> is none of \<open>Pfam-A\<close>, \<open>Clan\<close> and
  \<open>sequence\<close> (another string, \<open>None\<close>, a float) returns \<open>None\<close> and leaves the state as
  it was: nothing is raised and no request is sent.  The three known kinds call
  \<open>family\<close>, \<open>clan\<close> and \<open>protein\<close> on the accession.  An entry built by \<open>PfamEntry\<close> has
  both attributes.
\<close>

theorem PfamEntry_fetch_dispatch:
  "(getattr self ''type'' = Inr t \<and> t \<noteq> PStr ''Pfam-A'' \<and> t \<noteq> PStr ''Clan'' \<and> t \<noteq> PStr ''sequence''
      \<longrightarrow> PfamEntry_fetch env self s = (Inr PNone, s))
   \<and> (getattr self ''type'' = Inr (PStr ''Pfam-A'') \<and> getattr self ''accession'' = Inr a
      \<longrightarrow> PfamEntry_fetch env self s = family env a s)
   \<and> (getattr self ''type'' = Inr (PStr ''Clan'') \<and> getattr self ''accession'' = Inr a
      \<longrightarrow> PfamEntry_fetch env self s = clan env a s)
   \<and> (getattr self ''type'' = Inr (PStr ''sequence'') \<and> getattr self ''accession'' = Inr a
      \<longrightarrow> PfamEntry_fetch env self s = protein env a s)
   \<and> getattr (PfamEntry kind ident accession description) ''type'' = Inr kind
   \<and> getattr (PfamEntry kind ident accession description) ''accession'' = Inr accession"
  by (simp add: PfamEntry_fetch_def PfamEntry_def)

theorem PfamEntry_fetch_dispatch_witness:
  "PfamEntry_fetch (test_env error_body error_doc)
     (PfamEntry (PStr ''Pfam-B'') (PStr ''Pfam-B_1'') (PStr ''PB000001'') PNone) init_state
     = (Inr PNone, init_state)
   \<and> PfamEntry_fetch (test_env family_body family_doc)
     (PfamEntry (PStr ''Pfam-A'') (PStr ''FAMILY1'') (PStr ''PF00001'') PNone) init_state
     = family (test_env family_body family_doc) (PStr ''PF00001'') init_state
   \<and> PfamEntry_fetch (test_env family_body family_doc)
     (PfamEntry (PStr ''Clan'') (PStr ''CLAN1'') (PStr ''CL0001'') PNone) init_state
     = clan (test_env family_body family_doc) (PStr ''CL0001'') init_state
   \<and> PfamEntry_fetch (test_env family_body family_doc)
     (PfamEntry (PStr ''sequence'') (PStr ''TEST_ECOLI'') (PStr ''P12345'') PNone) init_state
     = protein (test_env family_body family_doc) (PStr ''P12345'') init_state"
  using PfamEntry_fetch_dispatch
          [where self = "PfamEntry (PStr ''Pfam-B'') (PStr ''Pfam-B_1'') (PStr ''PB000001'') PNone"
             and t = "PStr ''Pfam-B''" and env = "test_env error_body error_doc"
             and s = init_state]
        PfamEntry_fetch_dispatch
          [where self = "PfamEntry (PStr ''Pfam-A'') (PStr ''FAMILY1'') (PStr ''PF00001'') PNone"
             and a = "PStr ''PF00001''" and env = "test_env family_body family_doc"
             and s = init_state]
        PfamEntry_fetch_dispatch
          [where self = "PfamEntry (PStr ''Clan'') (PStr ''CLAN1'') (PStr ''CL0001'') PNone"
             and a = "PStr ''CL0001''" and env = "test_env family_body family_doc"
             and s = init_state]
        PfamEntry_fetch_dispatch
          [where self = "PfamEntry (PStr ''sequence'') (PStr ''TEST_ECOLI'') (PStr ''P12345'') PNone"
             and a = "PStr ''P12345''" and env = "test_env family_body family_doc"
             and s = init_state]
  by (simp add: PfamEntry_def)

section \<open>Facts about attributes\<close>

lemma map_of_assign: "map_of (assign self name v) = (map_of self)(name \<mapsto> v)"
  by (simp add: assign_def update_conv')

lemma setattr_plain:
  "\<not> special_name name \<Longrightarrow> setattr self name v = Inr (assign self name v)"
  by (simp add: setattr_def special_name_def assign_def)


section \<open>The fetch of the family of a protein\<close>










section \<open>The text endpoints\<close>

lemma request_text:
  assumes "map_of (dicts s p) ''output'' = Some out" and "out \<noteq> ''xml''"
    and "requests_get env (sent s)
           \<lparr>req_url = ''https://pfam.xfam.org'' @ path, req_params = dicts s p,
            req_headers = headers, req_timeout = timeout\<rparr> = Inr r"
    and "\<not> (400 \<le> status_code r \<and> status_code r < 600)"
  shows "fst (request env path (Some p) headers timeout s) = Inr (Text (resp_text r))"
  using assms by (simp add: request_def Let_def params_object_def setdefault_def)

lemma families_loop_eq:
  "families_loop lines out =
     out @ map (\<lambda>fs. PfamEntry (PStr ''Pfam-A'') (PStr (fs ! 1)) (PStr (fs ! 0)) (PStr (fs ! 2)))
                (filter (\<lambda>fs. length fs = 3) (map (split [CHR 0x09]) lines))"
  by (induction lines arbitrary: out) (simp_all add: Let_def)

text \<open>
  Claim C7.  When the request for \<open>/families\<close> in text mode is answered without a 4xx
  or 5xx status, \<open>families\<close> returns one entry for each line of the body that splits on
  tabs into exactly three fields, in the order of the lines, and nothing for any other
  line: the entry has type \<open>Pfam-A\<close>, the first field as accession, the second as id and
  the third as description.  For the body of one line \<open>PF00001\<close>, \<open>FAMILY1\<close>,
  \<open>some description\<close> that is the one entry of the witness.
\<close>

theorem families_lines:
  assumes "requests_get env (sent s)
             \<lparr>req_url = ''https://pfam.xfam.org/families'', req_params = [(''output'', ''text'')],
              req_headers = None, req_timeout = None\<rparr> = Inr r"
    and "\<not> (400 \<le> status_code r \<and> status_code r < 600)"
  shows "fst (families env s) =
           Inr (PList (map (\<lambda>fields. PObj ''PfamEntry''
                                       [(''id'', PStr (fields ! 1)), (''accession'', PStr (fields ! 0)),
                                        (''description'', PStr (fields ! 2)),
                                        (''type'', PStr ''Pfam-A'')])
                        (filter (\<lambda>fields. length fields = 3)
                           (map (split [CHR 0x09]) (splitlines (resp_text r))))))"
proof -
  obtain a s0 where n: "new_dict [(''output'', ''text'')] s = (a, s0)" by force
  then have d: "dicts s0 a = [(''output'', ''text'')]" and l: "sent s0 = sent s"
    by (auto simp: new_dict_def)
  have "fst (request env ''/families'' (Some a) None None s0) = Inr (Text (resp_text r))"
    using assms by (intro request_text [where out = "''text''"]) (simp_all add: d l)
  then obtain s' where "request env ''/families'' (Some a) None None s0 = (Inr (Text (resp_text r)), s')"
    by (cases "request env ''/families'' (Some a) None None s0") auto
  with n show ?thesis
    by (simp add: families_def families_loop_eq PfamEntry_def)
qed

theorem families_lines_witness:
  "fst (families (test_env families_body error_doc) init_state) =
     Inr (PList [PObj ''PfamEntry''
                   [(''id'', PStr ''FAMILY1''), (''accession'', PStr ''PF00001''),
                    (''description'', PStr ''some description''), (''type'', PStr ''Pfam-A'')]])"
  using families_lines [of "test_env families_body error_doc" init_state
          "\<lparr>status_code = 200, resp_text = families_body\<rparr>"]
  by (simp add: test_env_def families_body_def splitlines_def splitlines_from.simps
        is_linebreak_def split_def split_from.simps)

lemma hd_split_from:
  "hd (split_from [c] cur s) = rev cur @ takeWhile (\<lambda>x. x \<noteq> c) s"
proof (induction s arbitrary: cur)
  case Nil
  show ?case by (subst split_from.simps) simp
next
  case (Cons x xs)
  show ?case by (subst split_from.simps) (simp add: Cons.IH)
qed

lemma proteins_loop_eq:
  "proteins_loop lines out =
     out @ map (\<lambda>line. PStr (takeWhile (\<lambda>c. c \<noteq> CHR ''/'') line)) lines"
  by (induction lines arbitrary: out) (simp_all add: split_def hd_split_from)

text \<open>
  Claim C6, as amended.  When the request for the alignment is answered without a 4xx
  or 5xx status, \<open>proteins\<close> returns one name for every line of the body, empty lines
  included: the part of the line before its first \<open>/\<close>, which is the whole line when it
  has none and the empty string for an empty line.
\<close>

theorem proteins_lines:
  assumes "requests_get env (sent s)
             \<lparr>req_url = ''https://pfam.xfam.org/family/'' @ f @ ''/alignment/full/format'',
              req_params = [(''format'', ''pfam''), (''alnType'', ''full''), (''order'', ''a''),
                            (''case'', ''l''), (''gaps'', ''none''), (''download'', ''0''),
                            (''output'', ''text'')],
              req_headers = None, req_timeout = None\<rparr> = Inr r"
    and "\<not> (400 \<le> status_code r \<and> status_code r < 600)"
  shows "fst (proteins env (PStr f) s) =
           Inr (PList (map (\<lambda>line. PStr (takeWhile (\<lambda>c. c \<noteq> CHR ''/'') line))
                        (splitlines (resp_text r))))"
proof -
  let ?d = "[(''format'', ''pfam''), (''alnType'', ''full''), (''order'', ''a''),
             (''case'', ''l''), (''gaps'', ''none''), (''download'', ''0''),
             (''output'', ''text'')]"
  obtain a s0 where n: "new_dict ?d s = (a, s0)" by force
  then have d: "dicts s0 a = ?d" and l: "sent s0 = sent s"
    by (auto simp: new_dict_def)
  have "fst (request env (''/family/'' @ f @ ''/alignment/full/format'') (Some a) None None s0)
          = Inr (Text (resp_text r))"
    using assms by (intro request_text [where out = "''text''"]) (simp_all add: d l)
  then obtain s' where
    "request env (''/family/'' @ f @ ''/alignment/full/format'') (Some a) None None s0
       = (Inr (Text (resp_text r)), s')"
    by (cases "request env (''/family/'' @ f @ ''/alignment/full/format'') (Some a) None None s0") auto
  with n show ?thesis
    by (simp add: proteins_def proteins_loop_eq)
qed


theorem proteins_lines_witness:
  "fst (proteins (test_env alignment_body error_doc) (PStr ''PF00001'') init_state) =
     Inr (PList (map (\<lambda>line. PStr (takeWhile (\<lambda>c. c \<noteq> CHR ''/'') line))
                   (splitlines alignment_body)))"
  using proteins_lines [of "test_env alignment_body error_doc" init_state "''PF00001''"
          "\<lparr>status_code = 200, resp_text = alignment_body\<rparr>"]
  by (simp add: test_env_def)

text \<open>
  Claim C6 as stated fails: the body \<open>alignment_body\<close> has an empty line between its two
  sequences, and \<open>proteins\<close> returns three names, the empty string among them, where the
  names of the non-empty lines are two.
\<close>

theorem proteins_empty_line_counterexample:
  "splitlines alignment_body = [''Q1_HUMAN/1-5 acdef'', [], ''Q2_MOUSE/2-6 acdef'']
   \<and> fst (proteins (test_env alignment_body error_doc) (PStr ''PF00001'') init_state)
       = Inr (PList [PStr ''Q1_HUMAN'', PStr [], PStr ''Q2_MOUSE''])
   \<and> nonempty_line_names alignment_body = [''Q1_HUMAN'', ''Q2_MOUSE'']"
proof -
  have l: "splitlines alignment_body = [''Q1_HUMAN/1-5 acdef'', [], ''Q2_MOUSE/2-6 acdef'']"
    by (simp add: alignment_body_def splitlines_def splitlines_from.simps is_linebreak_def)
  have r: "fst (proteins (test_env alignment_body error_doc) (PStr ''PF00001'') init_state)
       = Inr (PList [PStr ''Q1_HUMAN'', PStr [], PStr ''Q2_MOUSE''])"
    by (simp add: proteins_def new_dict_def request_def Let_def params_object_def setdefault_def
          test_env_def init_state_def l split_def split_from.simps)
  have n: "nonempty_line_names alignment_body = [''Q1_HUMAN'', ''Q2_MOUSE'']"
    by (simp add: nonempty_line_names_def l)
  from l r n show ?thesis by blast
qed

section \<open>The taxonomy of a protein\<close>

lemma protein_attrs_ok_iff:
  "protein_attrs_ok self \<longleftrightarrow>
     (\<exists>ms. map_of self ''matches'' = Some (PList ms)) \<and> map_of self ''description'' \<noteq> None"
  by (auto simp: protein_attrs_ok_def split: option.splits py.splits)

lemma ordinary_children: "ordinary el \<Longrightarrow> list_all ordinary (children el)"
  by (cases el) simp

lemma ordinary_tag: "ordinary el \<Longrightarrow> \<not> special_name (tag el)"
  by (cases el) simp

lemma PfamLocation_loop_ordinary:
  "list_all ordinary els \<Longrightarrow> \<exists>self'. PfamLocation_loop self els = Inr self'"
proof (induction els arbitrary: self)
  case Nil
  show ?case by simp
next
  case (Cons el els)
  then show ?case
    by (simp add: setattr_plain ordinary_tag)
qed

lemma PfamLocation_ordinary: "ordinary el \<Longrightarrow> \<exists>l. PfamLocation el = Inr l"
proof -
  assume "ordinary el"
  then have "list_all ordinary (children el)" by (rule ordinary_children)
  from PfamLocation_loop_ordinary [OF this] show ?thesis
    unfolding PfamLocation_def by (metis sum.case(2))
qed

lemma PfamMatch_locations_ordinary:
  "list_all ordinary locs \<Longrightarrow> \<exists>ls. PfamMatch_locations acc locs = Inr ls"
proof (induction locs arbitrary: acc)
  case Nil
  show ?case by simp
next
  case (Cons loc locs)
  from Cons.prems obtain l where "PfamLocation loc = Inr l"
    using PfamLocation_ordinary by auto
  with Cons show ?case by simp
qed

lemma PfamMatch_ordinary: "ordinary el \<Longrightarrow> \<exists>m. PfamMatch el = Inr m"
proof -
  assume "ordinary el"
  then have "list_all ordinary (children el)" by (rule ordinary_children)
  from PfamMatch_locations_ordinary [OF this, of "[]"] show ?thesis
    by (auto simp: PfamMatch_def)
qed

lemma PfamProtein_matches_ordinary:
  "list_all ordinary els \<Longrightarrow> \<exists>ms'. PfamProtein_matches ms els = Inr ms'"
proof (induction els arbitrary: ms)
  case Nil
  show ?case by simp
next
  case (Cons el els)
  from Cons.prems obtain m where "PfamMatch el = Inr m"
    using PfamMatch_ordinary by auto
  with Cons show ?case by simp
qed

lemma PfamProtein_loop_append:
  "PfamProtein_loop self (xs @ ys) =
     (case PfamProtein_loop self xs of Inl e \<Rightarrow> Inl e | Inr self' \<Rightarrow> PfamProtein_loop self' ys)"
proof (induction xs arbitrary: self)
  case Nil
  show ?case by simp
next
  case (Cons x xs)
  consider (tax) "tag x = ''taxonomy''" | (seq) "tag x = ''sequence''" | (mat) "tag x = ''matches''"
    | (other) "tag x \<noteq> ''taxonomy''" "tag x \<noteq> ''sequence''" "tag x \<noteq> ''matches''" by blast
  then show ?case
  proof cases
    case tax
    then show ?thesis by (cases "etext x") (simp_all add: Cons.IH)
  next
    case seq
    then show ?thesis by (simp add: Cons.IH)
  next
    case mat
    show ?thesis
    proof (cases "map_of self ''matches''")
      case None
      with mat show ?thesis by (simp add: Cons.IH)
    next
      case (Some v)
      show ?thesis
      proof (cases v)
        case (PList ms)
        with Some mat show ?thesis
          by (cases "PfamProtein_matches ms (children x)") (simp_all add: Cons.IH)
      qed (use Some mat in \<open>simp_all add: Cons.IH\<close>)
    qed
  next
    case other
    then show ?thesis
      by (cases "setattr self (tag x) (etext x)") (simp_all add: Cons.IH)
  qed
qed

lemma PfamProtein_loop_other:
  assumes "\<forall>e \<in> set els. tag e \<noteq> ''taxonomy''" and "list_all ordinary els"
    and "protein_attrs_ok self"
  shows "\<exists>self'. PfamProtein_loop self els = Inr self' \<and> protein_attrs_ok self'
           \<and> map_of self' ''taxonomy'' = map_of self ''taxonomy''"
  using assms
proof (induction els arbitrary: self)
  case Nil
  then show ?case by simp
next
  case (Cons el els)
  from Cons.prems(3) obtain ms where ms: "map_of self ''matches'' = Some (PList ms)"
    by (auto simp: protein_attrs_ok_iff)
  from Cons.prems(1) have rest: "\<forall>e \<in> set els. tag e \<noteq> ''taxonomy''" and el: "tag el \<noteq> ''taxonomy''"
    by simp_all
  from Cons.prems(2) have ord: "list_all ordinary els" and oel: "ordinary el"
    by simp_all
  consider (seq) "tag el = ''sequence''" | (mat) "tag el = ''matches''"
    | (other) "tag el \<noteq> ''sequence''" "tag el \<noteq> ''matches''" by blast
  then show ?case
  proof cases
    case seq
    let ?s = "assign (assign self ''sequence_version'' (element_get el ''version''))
                ''sequence'' (etext el)"
    have ok: "protein_attrs_ok ?s"
      using Cons.prems(3) by (simp add: protein_attrs_ok_iff map_of_assign)
    from Cons.IH [OF rest ord ok] seq el show ?thesis
      by (simp add: map_of_assign)
  next
    case mat
    from PfamProtein_matches_ordinary [OF ordinary_children [OF oel], of ms]
    obtain ms' where ms': "PfamProtein_matches ms (children el) = Inr ms'" by blast
    let ?s = "assign self ''matches'' (PList ms')"
    have ok: "protein_attrs_ok ?s"
      using Cons.prems(3) by (simp add: protein_attrs_ok_iff map_of_assign)
    from Cons.IH [OF rest ord ok] mat el ms ms' show ?thesis
      by (simp add: map_of_assign)
  next
    case other
    let ?s = "assign self (tag el) (etext el)"
    have sa: "setattr self (tag el) (etext el) = Inr ?s"
      using oel by (simp add: setattr_plain ordinary_tag)
    have ok: "protein_attrs_ok ?s"
      using Cons.prems(3) other by (simp add: protein_attrs_ok_iff map_of_assign)
    from Cons.IH [OF rest ord ok] other el sa show ?thesis
      by (simp add: map_of_assign)
  qed
qed

lemma taxonomy_entry_ordinary:
  "list_all ordinary
     [Element ''description'' [] (PStr ''A protein'') PNone [] :: (rat, nat \<times> nat \<times> nat) element]"
  "list_all ordinary
     [Element ''matches'' [] PNone PNone [match_element] :: (rat, nat \<times> nat \<times> nat) element]"
  by (simp_all add: special_name_def match_element_def)

text \<open>
  Claim C5, as amended.  Take a protein entry with one \<open>taxonomy\<close> child, and let no
  element before it be tagged with one of the names \<open>setattr\<close> refuses (\<open>__class__\<close>,
  \<open>__dict__\<close>, \<open>__weakref__\<close>), so that the mapper reaches the \<open>taxonomy\<close> child.  The
  mapper reads the text of that child as the tree normaliser left it.  When it is a
  string and no element after the child has such a tag either, the lineage list is
  that string with every trailing \<open>.\<close> removed (\<open>rstrip\<close>), split on \<open>"; "\<close>.  When it is
  not a string (\<open>None\<close> for an empty element, a float for a numeric one), \<open>PfamProtein\<close>
  raises \<open>AttributeError\<close>.  For \<open>Bacteria; Firmicutes.\<close> the list is \<open>Bacteria\<close>,
  \<open>Firmicutes\<close>, as the witness shows.
\<close>

theorem PfamProtein_taxonomy:
  assumes "children entry = before @ el # after"
    and "tag el = ''taxonomy''"
    and "\<forall>e \<in> set before. tag e \<noteq> ''taxonomy''"
    and "list_all ordinary before"
  shows "(etext el = PStr t \<and> (\<forall>e \<in> set after. tag e \<noteq> ''taxonomy'') \<and> list_all ordinary after
            \<longrightarrow>
            attr_of (PfamProtein release_version release_date entry) ''taxonomy''
              = Inr (PList (map PStr (split ''; '' (rstrip (CHR ''.'') t)))))
         \<and> (\<not> is_str (etext el) \<longrightarrow>
            PfamProtein release_version release_date entry = Inl AttributeError)"
proof -
  let ?init = "[(''pfam_release_version'', release_version), (''pfam_release_date'', release_date),
              (''db_name'', element_get entry ''db''),
              (''db_release_version'', element_get entry ''db_release''),
              (''description'', PNone), (''comment'', PNone), (''taxonomy_id'', PNone),
              (''species_name'', PNone), (''taxonomy'', PNone), (''sequence'', PNone),
              (''matches'', PList [])]"
  have "protein_attrs_ok ?init" by (simp add: protein_attrs_ok_iff)
  from PfamProtein_loop_other [OF assms(3) assms(4) this] obtain s1 where
    s1: "PfamProtein_loop ?init before = Inr s1" "protein_attrs_ok s1" by blast
  have good: "attr_of (PfamProtein release_version release_date entry) ''taxonomy''
              = Inr (PList (map PStr (split ''; '' (rstrip (CHR ''.'') t))))"
    if tx: "etext el = PStr t" and aft: "\<forall>e \<in> set after. tag e \<noteq> ''taxonomy''"
      and oaft: "list_all ordinary after"
  proof -
    let ?s2 = "assign
                  (assign (assign s1 ''taxonomy_id'' (element_get el ''tax_id''))
                     ''species_name'' (element_get el ''species_name''))
                  ''taxonomy'' (PList (map PStr (split ''; '' (rstrip (CHR ''.'') t))))"
    have ok2: "protein_attrs_ok ?s2"
      using s1(2) by (simp add: protein_attrs_ok_iff map_of_assign)
    from PfamProtein_loop_other [OF aft oaft ok2] obtain s3 where
      s3: "PfamProtein_loop ?s2 after = Inr s3" "protein_attrs_ok s3"
        "map_of s3 ''taxonomy'' = map_of ?s2 ''taxonomy''" by blast
    have loop: "PfamProtein_loop ?init (children entry) = Inr s3"
      using s1(1) s3(1) assms(1,2) tx by (simp add: PfamProtein_loop_append)
    from s3(2) obtain d where d: "self_description s3 = Inr d"
      by (auto simp: protein_attrs_ok_iff self_description_def)
    have "map_of s3 ''taxonomy'' = Some (PList (map PStr (split ''; '' (rstrip (CHR ''.'') t))))"
      using s3(3) by (simp add: map_of_assign)
    with loop d show ?thesis
      by (simp add: PfamProtein_def attr_of_def map_of_assign)
  qed
  have bad: "PfamProtein release_version release_date entry = Inl AttributeError"
    if tx: "\<not> is_str (etext el)"
  proof -
    have "PfamProtein_loop s1 (el # after) = Inl AttributeError"
      using assms(2) tx by (cases "etext el") simp_all
    then have "PfamProtein_loop ?init (children entry) = Inl AttributeError"
      using s1(1) assms(1) by (simp add: PfamProtein_loop_append)
    then show ?thesis by (simp add: PfamProtein_def)
  qed
  from good bad show ?thesis by blast
qed

theorem PfamProtein_taxonomy_witness:
  "attr_of (PfamProtein (PFloat (331 / 10)) (PDate (2022, 2, 1))
              (Element ''entry'' [] PNone PNone
                 [Element ''description'' [] (PStr ''A protein'') PNone [],
                  Element ''taxonomy'' [] (PStr ''Bacteria; Firmicutes.'') PNone [],
                  Element ''matches'' [] PNone PNone [match_element]]))
     ''taxonomy''
     = (Inr (PList [PStr ''Bacteria'', PStr ''Firmicutes''])
          :: (rat, nat \<times> nat \<times> nat) exn + (rat, nat \<times> nat \<times> nat) py)
   \<and> PfamProtein (PFloat (331 / 10)) (PDate (2022, 2, 1))
        (hd (children (xml_process_tree decimal_float (protein_doc []))))
     = (Inl AttributeError
          :: (rat, nat \<times> nat \<times> nat) exn + (rat, nat \<times> nat \<times> nat) py)"
proof -
  let ?d = "Element ''description'' [] (PStr ''A protein'') PNone []
              :: (rat, nat \<times> nat \<times> nat) element"
  let ?t = "Element ''taxonomy'' [] (PStr ''Bacteria; Firmicutes.'') PNone []
              :: (rat, nat \<times> nat \<times> nat) element"
  let ?m = "Element ''matches'' [] PNone PNone [match_element]
              :: (rat, nat \<times> nat \<times> nat) element"
  let ?e1 = "Element ''entry'' [] PNone PNone [?d, ?t, ?m]"
  let ?e = "hd (children (xml_process_tree decimal_float (protein_doc [])))
              :: (rat, nat \<times> nat \<times> nat) element"
  let ?el = "hd (children ?e)"
  have c1: "children ?e1 = [?d] @ ?t # [?m]" "tag ?t = ''taxonomy''"
    "\<forall>e \<in> set [?d]. tag e \<noteq> ''taxonomy''"
    by simp_all
  have h1: "etext ?t = PStr ''Bacteria; Firmicutes.'' \<and> (\<forall>e \<in> set [?m]. tag e \<noteq> ''taxonomy'')
              \<and> list_all ordinary [?m]"
    using taxonomy_entry_ordinary(2) by simp
  have s: "split ''; '' (rstrip (CHR ''.'') ''Bacteria; Firmicutes.'') = [''Bacteria'', ''Firmicutes'']"
    by (simp add: rstrip_def split_def split_from.simps)
  from PfamProtein_taxonomy [OF c1 taxonomy_entry_ordinary(1), THEN conjunct1, THEN mp, OF h1,
         of "PFloat (331 / 10)" "PDate (2022, 2, 1)"] s
  have 1: "attr_of (PfamProtein (PFloat (331 / 10)) (PDate (2022, 2, 1)) ?e1) ''taxonomy''
             = Inr (PList [PStr ''Bacteria'', PStr ''Firmicutes''])"
    by simp
  have c2: "children ?e = [] @ ?el # []" "tag ?el = ''taxonomy''"
    "\<forall>e \<in> set []. tag e \<noteq> ''taxonomy''" "list_all ordinary ([] :: (rat, nat \<times> nat \<times> nat) element list)"
    by (simp_all add: protein_doc_def)
  have n: "\<not> is_str (etext ?el)"
    by (simp add: protein_doc_def xml_process_value_def)
  from PfamProtein_taxonomy [OF c2, THEN conjunct2, THEN mp, OF n,
         of "PFloat (331 / 10)" "PDate (2022, 2, 1)"]
  have 2: "PfamProtein (PFloat (331 / 10)) (PDate (2022, 2, 1)) ?e = Inl AttributeError" .
  from 1 2 show ?thesis by blast
qed

text \<open>
  Claim C5 as stated fails.  With two trailing dots the code removes both, where removing
  one would leave \<open>Firmicutes.\<close> as the last name; and a response whose \<open>taxonomy\<close>
  element is empty gets no list at all, \<open>protein\<close> raises \<open>AttributeError\<close>.
\<close>

theorem taxonomy_dots_counterexample:
  "attr_of (fst (protein (test_env (protein_body ''Bacteria; Firmicutes..'')
                            (protein_doc ''Bacteria; Firmicutes..''))
                   (PStr ''P12345'') init_state)) ''taxonomy''
     = Inr (PList [PStr ''Bacteria'', PStr ''Firmicutes''])
   \<and> split ''; '' (rstrip_one (CHR ''.'') ''Bacteria; Firmicutes..'')
     = [''Bacteria'', ''Firmicutes.'']
   \<and> fst (protein (test_env (protein_body []) (protein_doc [])) (PStr ''P12345'') init_state)
     = Inl AttributeError"
proof -
  have 1: "attr_of (fst (protein (test_env (protein_body ''Bacteria; Firmicutes..'')
                            (protein_doc ''Bacteria; Firmicutes..''))
                   (PStr ''P12345'') init_state)) ''taxonomy''
     = Inr (PList [PStr ''Bacteria'', PStr ''Firmicutes''])"
    by (simp add: protein_def request_def Let_def params_object_def setdefault_def test_env_def
          init_state_def protein_doc_def release_of_def element_get_def xml_process_value_def
          strip_def is_space_def decimal_float_def is_digit_def digit_value_def
          PfamProtein_def self_description_def assign_def setattr_def PfamEntry_def attr_of_def
          rstrip_def split_def split_from.simps)
  have 2: "split ''; '' (rstrip_one (CHR ''.'') ''Bacteria; Firmicutes..'')
     = [''Bacteria'', ''Firmicutes.'']"
    by (simp add: rstrip_one_def split_def split_from.simps)
  have 3: "fst (protein (test_env (protein_body []) (protein_doc [])) (PStr ''P12345'') init_state)
     = Inl AttributeError"
    by (simp add: protein_def request_def Let_def params_object_def setdefault_def test_env_def
          init_state_def protein_doc_def release_of_def element_get_def xml_process_value_def
          strip_def is_space_def decimal_float_def is_digit_def digit_value_def
          PfamProtein_def)
  from 1 2 3 show ?thesis by blast
qed

section \<open>The release version of a family\<close>

lemma sub_xmlns_family_body: "sub_xmlns family_body = family_xml"
  by (simp add: family_body_def family_xml_def dq_def match_xmlns_def)

lemma request_xml:
  assumes "map_of (dicts s (params_object params)) ''output'' = None
           \<or> map_of (dicts s (params_object params)) ''output'' = Some ''xml''"
    and "requests_get env (sent s)
           \<lparr>req_url = ''https://pfam.xfam.org'' @ path,
            req_params = setdefault (dicts s (params_object params)) ''output'' ''xml'',
            req_headers = headers, req_timeout = timeout\<rparr> = Inr r"
    and "\<not> (400 \<le> status_code r \<and> status_code r < 600)"
    and "ElementTree_fromstring env (sub_xmlns (resp_text r)) = Some doc"
    and "tag doc \<noteq> ''error''"
  shows "fst (request env path params headers timeout s)
           = Inr (Root (xml_process_tree (builtin_float env) doc))"
proof -
  from assms(1) have "map_of (setdefault (dicts s (params_object params)) ''output'' ''xml'')
                             ''output'' = Some ''xml''"
    by (auto simp: map_of_setdefault)
  with assms(2-5) show ?thesis by (simp add: request_def Let_def)
qed

text \<open>
  Claim C1.  The response is the document \<open>family_doc\<close>: a root with
  \<open>release="33.1"\<close> and \<open>release_date="2022-02-01"\<close>, whose entry has a
  \<open>curation_details\<close> child with \<open>num_seqs\<close> holding \<open>seed\<close> 10 and \<open>full\<close> 20.  For
  every environment in which \<open>float\<close> parses \<open>33.1\<close>, \<open>10\<close> and \<open>20\<close> and rejects the date,
  the family \<open>family\<close> builds has the floats of \<open>10\<close> and \<open>20\<close> as \<open>num_seqs_seed\<close> and
  \<open>num_seqs_full\<close>, as the claim says.  Its \<open>pfam_release_version\<close> is the float of
  \<open>33.1\<close> and not the string \<open>33.1\<close>: the tree normaliser rewrites the attributes of the
  root like all others before \<open>family\<close> reads \<open>release\<close>, although the class declares
  the attribute a \<open>str\<close>.
\<close>

theorem family_release_version_float:
  assumes "map_of (dicts s request_defaults) ''output'' = None
           \<or> map_of (dicts s request_defaults) ''output'' = Some ''xml''"
    and "requests_get env (sent s)
           \<lparr>req_url = ''https://pfam.xfam.org/family/'' @ i,
            req_params = setdefault (dicts s request_defaults) ''output'' ''xml'',
            req_headers = None, req_timeout = None\<rparr> = Inr r"
    and "status_code r = 200"
    and "ElementTree_fromstring env (sub_xmlns (resp_text r)) = Some family_doc"
    and "builtin_float env ''33.1'' = Some v"
    and "builtin_float env ''10'' = Some ten"
    and "builtin_float env ''20'' = Some twenty"
    and "builtin_float env ''2022-02-01'' = None"
    and "datetime_strptime env ''2022-02-01'' ''%Y-%m-%d'' = Some d"
  shows "attr_of (attr_of (fst (family env (PStr i) s)) ''curation_details'') ''num_seqs_seed''
           = Inr (PFloat ten)
         \<and> attr_of (attr_of (fst (family env (PStr i) s)) ''curation_details'') ''num_seqs_full''
           = Inr (PFloat twenty)
         \<and> attr_of (fst (family env (PStr i) s)) ''pfam_release_date'' = Inr (PDate d)
         \<and> attr_of (fst (family env (PStr i) s)) ''pfam_release_version'' = Inr (PFloat v)
         \<and> attr_of (fst (family env (PStr i) s)) ''pfam_release_version'' \<noteq> Inr (PStr ''33.1'')"
proof -
  have st: "strip ''33.1'' = ''33.1''" "strip ''10'' = ''10''" "strip ''20'' = ''20''"
    "strip ''2022-02-01'' = ''2022-02-01''"
    by (simp_all add: strip_def is_space_def)
  have "fst (request env (''/family/'' @ i) None None None s)
           = Inr (Root (xml_process_tree (builtin_float env) family_doc))"
    using assms(1-4) by (intro request_xml [where r = r]) (simp_all add: params_object_def family_doc_def)
  then obtain s' where rq: "request env (''/family/'' @ i) None None None s
           = (Inr (Root (xml_process_tree (builtin_float env) family_doc)), s')"
    by (cases "request env (''/family/'' @ i) None None None s") auto
  have unf: "family env (PStr i) s =
      (case release_of env (Root (xml_process_tree (builtin_float env) family_doc)) of
         Inl e \<Rightarrow> (Inl e, s')
       | Inr (release_version, release_date, entry) \<Rightarrow>
           (PfamFamily release_version release_date entry, s'))"
    by (simp only: family_def py.case rq prod.case sum.case)
  have fam: "fst (family env (PStr i) s) =
     Inr (PObj ''PfamFamily''
       [(''pfam_release_version'', PFloat v), (''pfam_release_date'', PDate d),
        (''description'', PNone), (''comment'', PNone),
        (''curation_details'',
           PObj ''PfamCurationDetails''
             [(''status'', PNone), (''seed_source'', PNone), (''num_archs'', PNone),
              (''num_species'', PNone), (''num_structures'', PNone),
              (''percentage_identity'', PNone), (''av_length'', PNone),
              (''av_coverage'', PNone), (''type'', PNone),
              (''num_seqs_seed'', PFloat ten), (''num_seqs_full'', PFloat twenty)]),
        (''entry'',
           PfamEntry (xml_process_value (builtin_float env) (PStr ''Pfam-A''))
             (xml_process_value (builtin_float env) (PStr ''FAMILY1''))
             (xml_process_value (builtin_float env) (PStr ''PF00001'')) PNone)])"
    using assms(5-9)
    by (simp add: unf family_doc_def release_of_def element_get_def
          xml_process_value_def [of _ "PStr ''33.1''"] xml_process_value_def [of _ "PStr ''10''"]
          xml_process_value_def [of _ "PStr ''20''"] xml_process_value_def [of _ "PStr ''2022-02-01''"]
          xml_process_value_def [of _ PNone] st
          PfamFamily_def PfamCurationDetails_def find_text_def element_find_def
          self_description_def assign_def)
  show ?thesis by (simp add: fam attr_of_def)
qed

theorem family_release_version_float_witness:
  "attr_of (attr_of (fst (family (test_env family_body family_doc) (PStr ''PF00001'') init_state))
              ''curation_details'') ''num_seqs_seed''
     = Inr (PFloat 10)
   \<and> attr_of (attr_of (fst (family (test_env family_body family_doc) (PStr ''PF00001'') init_state))
              ''curation_details'') ''num_seqs_full''
     = Inr (PFloat 20)
   \<and> attr_of (fst (family (test_env family_body family_doc) (PStr ''PF00001'') init_state))
        ''pfam_release_date''
     = Inr (PDate (2022, 2, 1))
   \<and> attr_of (fst (family (test_env family_body family_doc) (PStr ''PF00001'') init_state))
        ''pfam_release_version''
     = Inr (PFloat (331 / 10))
   \<and> attr_of (fst (family (test_env family_body family_doc) (PStr ''PF00001'') init_state))
        ''pfam_release_version''
     \<noteq> Inr (PStr ''33.1'')"
  using family_release_version_float [of init_state "test_env family_body family_doc"
          "''PF00001''" "\<lparr>status_code = 200, resp_text = family_body\<rparr>" "331 / 10" 10 20
          "(2022, 2, 1)"]
  by (simp add: test_env_def init_state_def decimal_float_def is_digit_def digit_value_def)

end
